theory Spec2Isabelle
  imports Main "HOL-Library.Sublist"
begin

section \<open>The prompt version-control commands of the Mirascope CLI\<close>

text \<open>
  The development embeds \<^verbatim>\<open>use_command\<close> of
  \<^verbatim>\<open>mirascope/cli/commands/use.py\<close>. Python strings are character lists, the
  file system is a map from paths to file contents, and a run of the command takes a
  world (files, standard output, a log of file operations) to an outcome and a new
  world. An exception is a value: the outcome \<open>Inl e\<close>, next to the world as it was
  when the exception left the command, since nothing is rolled back.
\<close>

subsection \<open>Data\<close>

type_synonym path = string

type_synonym filesystem = "path \<rightharpoonup> string"

text \<open>
  The settings record, with the fields the tests construct it from
  (\<^verbatim>\<open>MirascopeSettings(mirascope_location=..., auto_tag=..., version_file_name=...,
  prompts_location=..., versions_location=...)\<close>).
\<close>

record MirascopeSettings =
  mirascope_location :: string
  auto_tag :: bool
  version_file_name :: string
  prompts_location :: string
  versions_location :: string

text \<open>
  The command tag handed to the template renderer. \<^verbatim>\<open>use.py\<close> names the member
  \<^verbatim>\<open>MirascopeCommand.USE\<close>; \<open>ADD\<close> is the member the commit operation passes.
\<close>

datatype MirascopeCommand = ADD | USE

text \<open>
  Exceptions. \<^verbatim>\<open>FileNotFoundError\<close> is the one \<^verbatim>\<open>use_command\<close> raises
  itself; \<open>Exception\<close> stands for any other exception a helper raises.
\<close>

datatype exn = FileNotFoundError string | Exception string

text \<open>
  The log of a run: the file operations the command performs itself and its calls
  to the helpers that rewrite files, in the order they happen. An operation is logged
  once it has returned; what the readers among the helpers open is not logged.
\<close>

datatype event =
    OpenRead path
  | OpenWrite path
  | FileWrite path string
  | RunFormat path
  | UpdateVersionFile path "(string \<times> string) list"

record world =
  files :: filesystem
  stdout :: "string list"
  trace :: "event list"

subsection \<open>The helpers of \<^verbatim>\<open>mirascope.cli.utils\<close>\<close>

text \<open>
  \<^verbatim>\<open>use.py\<close> imports its helpers from \<^verbatim>\<open>..utils\<close>, whose code is not
  among the sources. They are parameters of the model: a record of functions, typed
  after the calls \<^verbatim>\<open>use_command\<close> makes. Every helper may raise. The three readers
  (settings, status check, snapshot lookup) see the files and change nothing; the
  renderer is a function of the text it is given; the formatter and the pointer-file
  update return the files as they leave them, and a helper that raises is taken to
  leave the files as it found them.
\<close>

record utils =
  get_user_mirascope_settings :: "filesystem \<Rightarrow> exn + MirascopeSettings"
  check_status :: "MirascopeSettings \<Rightarrow> string \<Rightarrow> filesystem \<Rightarrow> exn + path option"
  find_prompt_path :: "path \<Rightarrow> string \<Rightarrow> filesystem \<Rightarrow> exn + path option"
  write_prompt_to_template :: "string \<Rightarrow> MirascopeCommand \<Rightarrow> exn + string"
  run_format_command :: "path \<Rightarrow> filesystem \<Rightarrow> exn + filesystem"
  update_version_text_file ::
    "path \<Rightarrow> (string \<times> string) list \<Rightarrow> filesystem \<Rightarrow> exn + filesystem"

text \<open>
  Modelled from the spec: the constant \<^verbatim>\<open>CURRENT_REVISION_KEY\<close> of
  \<^verbatim>\<open>mirascope.cli.constants\<close>, which is not among the sources. Section 6 of the
  spec names the two keys of the pointer file, \<^verbatim>\<open>current_revision\<close> and
  \<^verbatim>\<open>latest_revision\<close>.
\<close>

definition CURRENT_REVISION_KEY :: string where
  "CURRENT_REVISION_KEY = ''current_revision''"

definition LATEST_REVISION_KEY :: string where
  "LATEST_REVISION_KEY = ''latest_revision''"

subsection \<open>Python primitives\<close>

text \<open>Truth value of an \<^verbatim>\<open>Optional[str]\<close>: \<^verbatim>\<open>None\<close> and \<^verbatim>\<open>""\<close> are false.\<close>

fun truthy :: "string option \<Rightarrow> bool" where
  "truthy None = False"
| "truthy (Some s) = (s \<noteq> [])"

text \<open>\<^verbatim>\<open>os.path.join\<close> of two components, as \<^verbatim>\<open>posixpath\<close> defines it.\<close>

definition path_join :: "path \<Rightarrow> path \<Rightarrow> path" where
  "path_join a b =
     (if b \<noteq> [] \<and> hd b = CHR ''/'' then b
      else if a = [] \<or> last a = CHR ''/'' then a @ b
      else a @ ''/'' @ b)"

text \<open>
  \<^verbatim>\<open>str.expandtabs(tabsize)\<close>: a tab becomes the spaces that reach the next
  multiple of the tab size, and a line break resets the column.
\<close>

fun expandtabs_from :: "nat \<Rightarrow> nat \<Rightarrow> string \<Rightarrow> string" where
  "expandtabs_from tabsize col [] = []"
| "expandtabs_from tabsize col (c # cs) =
     (if c = CHR 0x09 then
        (if 0 < tabsize then
           replicate (tabsize - col mod tabsize) CHR '' ''
             @ expandtabs_from tabsize (col + (tabsize - col mod tabsize)) cs
         else expandtabs_from tabsize col cs)
      else if c = CHR 0x0A \<or> c = CHR 0x0D then c # expandtabs_from tabsize 0 cs
      else c # expandtabs_from tabsize (Suc col) cs)"

definition expandtabs :: "nat \<Rightarrow> string \<Rightarrow> string" where
  "expandtabs tabsize s = expandtabs_from tabsize 0 s"

text \<open>\<^verbatim>\<open>print(s)\<close>: one more line on standard output.\<close>

definition py_print :: "string \<Rightarrow> world \<Rightarrow> world" where
  "py_print s w = w\<lparr>stdout := stdout w @ [s]\<rparr>"

definition log_event :: "event \<Rightarrow> world \<Rightarrow> world" where
  "log_event e w = w\<lparr>trace := trace w @ [e]\<rparr>"

text \<open>Python's \<^verbatim>\<open>repr\<close> of a path, as it stands in the message of a failed \<^verbatim>\<open>open\<close>.\<close>

definition no_such_file :: "path \<Rightarrow> exn" where
  "no_such_file p =
     FileNotFoundError (''[Errno 2] No such file or directory: '' @ [CHR 0x27] @ p @ [CHR 0x27])"

subsection \<open>The use command\<close>

text \<open>
  Lines 97 and 98: \<^verbatim>\<open>if not version: version = alias\<close>. The argument is an
  \<^verbatim>\<open>Optional[str]\<close> with default \<^verbatim>\<open>""\<close>.
\<close>

definition resolved_version :: "string \<Rightarrow> string option \<Rightarrow> string" where
  "resolved_version alias version =
     (case version of None \<Rightarrow> alias | Some v \<Rightarrow> if v = [] then alias else v)"

text \<open>
  Lines 116 to 132, once the snapshot path is known: read the snapshot, open the
  working prompt file for writing (which empties it), render, write, format, update
  the pointer file, print. The function returns \<^verbatim>\<open>None\<close> (\<open>Inr None\<close>).
\<close>

definition use_checkout ::
  "utils \<Rightarrow> MirascopeSettings \<Rightarrow> string \<Rightarrow> string \<Rightarrow> path \<Rightarrow> path \<Rightarrow> world
     \<Rightarrow> (exn + string option) \<times> world" where
  "use_checkout U mirascope_settings prompt_file_name version revision_file_path
       version_file_path w =
     (case files w revision_file_path of
        None \<Rightarrow> (Inl (no_such_file revision_file_path), w)
      | Some content \<Rightarrow>
          let w1 = log_event (OpenRead revision_file_path) w;
              prompt_file_path =
                path_join (prompts_location mirascope_settings) (prompt_file_name @ ''.py'');
              w2 = log_event (OpenWrite prompt_file_path)
                     (w1\<lparr>files := (files w1)(prompt_file_path \<mapsto> [])\<rparr>)
          in (case write_prompt_to_template U content USE of
                Inl e \<Rightarrow> (Inl e, w2)
              | Inr rendered \<Rightarrow>
                  let w3 = log_event (FileWrite prompt_file_path rendered)
                             (w2\<lparr>files := (files w2)(prompt_file_path \<mapsto> rendered)\<rparr>);
                      formatted =
                        (if prompt_file_path \<noteq> []
                         then (case run_format_command U prompt_file_path (files w3) of
                                 Inl e \<Rightarrow> Inl e
                               | Inr fs \<Rightarrow>
                                   Inr (log_event (RunFormat prompt_file_path)
                                          (w3\<lparr>files := fs\<rparr>)))
                         else Inr w3)
                  in (case formatted of
                        Inl e \<Rightarrow> (Inl e, w3)
                      | Inr w4 \<Rightarrow>
                          let keys_to_update = [(CURRENT_REVISION_KEY, version)]
                          in (case update_version_text_file U version_file_path
                                     keys_to_update (files w4) of
                                Inl e \<Rightarrow> (Inl e, w4)
                              | Inr fs \<Rightarrow>
                                  (Inr None,
                                   py_print (''Using '' @ revision_file_path)
                                     (log_event
                                        (UpdateVersionFile version_file_path keys_to_update)
                                        (w4\<lparr>files := fs\<rparr>)))))))"

text \<open>
  \<^verbatim>\<open>use_command(prompt_file_name, alias, version)\<close>, lines 97 to 115, handing over
  to \<open>use_checkout\<close> at line 116.
\<close>

definition use_command ::
  "utils \<Rightarrow> string \<Rightarrow> string \<Rightarrow> string option \<Rightarrow> world \<Rightarrow> (exn + string option) \<times> world" where
  "use_command U prompt_file_name alias version0 w =
     (let version = resolved_version alias version0
      in case get_user_mirascope_settings U (files w) of
           Inl e \<Rightarrow> (Inl e, w)
         | Inr mirascope_settings \<Rightarrow>
             (case check_status U mirascope_settings prompt_file_name (files w) of
                Inl e \<Rightarrow> (Inl e, w)
              | Inr used_prompt_path \<Rightarrow>
                  if truthy used_prompt_path then
                    (Inr None,
                     py_print (expandtabs 4 ([CHR 0x09] @ ''mirascope add '' @ prompt_file_name))
                       (py_print ''Changes detected, please add or remove changes first.'' w))
                  else
                    let version_directory_path = versions_location mirascope_settings;
                        prompt_versions_directory =
                          path_join version_directory_path prompt_file_name;
                        version_file_path =
                          path_join prompt_versions_directory
                            (version_file_name mirascope_settings)
                    in (case find_prompt_path U prompt_versions_directory version (files w) of
                          Inl e \<Rightarrow> (Inl e, w)
                        | Inr None \<Rightarrow>
                            (Inl (FileNotFoundError
                                    (''Prompt version '' @ version @ '' not found in ''
                                       @ prompt_versions_directory)), w)
                        | Inr (Some revision_file_path) \<Rightarrow>
                            use_checkout U mirascope_settings prompt_file_name version
                              revision_file_path version_file_path w)))"

text \<open>
  The helpers a run calls. The command of \<^verbatim>\<open>use.py\<close> once more, now keeping,
  next to the outcome and the world, the list of the helpers it has called, in the
  order of the calls: a helper is put on the list when it is called, whether it returns
  or raises. The two definitions below follow \<open>use_checkout\<close> and \<open>use_command\<close>
  step by step and differ from them in the list alone.
\<close>

datatype helper =
    GetUserMirascopeSettings
  | CheckStatus
  | FindPromptPath
  | WritePromptToTemplate
  | RunFormatCommand
  | UpdateVersionTextFile

definition use_checkout_logged ::
  "utils \<Rightarrow> MirascopeSettings \<Rightarrow> string \<Rightarrow> string \<Rightarrow> path \<Rightarrow> path \<Rightarrow> world
     \<Rightarrow> helper list \<Rightarrow> ((exn + string option) \<times> world) \<times> helper list" where
  "use_checkout_logged U mirascope_settings prompt_file_name version revision_file_path
       version_file_path w calls =
     (case files w revision_file_path of
        None \<Rightarrow> ((Inl (no_such_file revision_file_path), w), calls)
      | Some content \<Rightarrow>
          let w1 = log_event (OpenRead revision_file_path) w;
              prompt_file_path =
                path_join (prompts_location mirascope_settings) (prompt_file_name @ ''.py'');
              w2 = log_event (OpenWrite prompt_file_path)
                     (w1\<lparr>files := (files w1)(prompt_file_path \<mapsto> [])\<rparr>);
              calls1 = calls @ [WritePromptToTemplate]
          in (case write_prompt_to_template U content USE of
                Inl e \<Rightarrow> ((Inl e, w2), calls1)
              | Inr rendered \<Rightarrow>
                  let w3 = log_event (FileWrite prompt_file_path rendered)
                             (w2\<lparr>files := (files w2)(prompt_file_path \<mapsto> rendered)\<rparr>);
                      calls2 = (if prompt_file_path \<noteq> [] then calls1 @ [RunFormatCommand]
                                else calls1);
                      formatted =
                        (if prompt_file_path \<noteq> []
                         then (case run_format_command U prompt_file_path (files w3) of
                                 Inl e \<Rightarrow> Inl e
                               | Inr fs \<Rightarrow>
                                   Inr (log_event (RunFormat prompt_file_path)
                                          (w3\<lparr>files := fs\<rparr>)))
                         else Inr w3)
                  in (case formatted of
                        Inl e \<Rightarrow> ((Inl e, w3), calls2)
                      | Inr w4 \<Rightarrow>
                          let keys_to_update = [(CURRENT_REVISION_KEY, version)];
                              calls3 = calls2 @ [UpdateVersionTextFile]
                          in (case update_version_text_file U version_file_path
                                     keys_to_update (files w4) of
                                Inl e \<Rightarrow> ((Inl e, w4), calls3)
                              | Inr fs \<Rightarrow>
                                  ((Inr None,
                                    py_print (''Using '' @ revision_file_path)
                                      (log_event
                                         (UpdateVersionFile version_file_path keys_to_update)
                                         (w4\<lparr>files := fs\<rparr>))), calls3)))))"

definition use_command_logged ::
  "utils \<Rightarrow> string \<Rightarrow> string \<Rightarrow> string option \<Rightarrow> world
     \<Rightarrow> ((exn + string option) \<times> world) \<times> helper list" where
  "use_command_logged U prompt_file_name alias version0 w =
     (let version = resolved_version alias version0
      in case get_user_mirascope_settings U (files w) of
           Inl e \<Rightarrow> ((Inl e, w), [GetUserMirascopeSettings])
         | Inr mirascope_settings \<Rightarrow>
             (case check_status U mirascope_settings prompt_file_name (files w) of
                Inl e \<Rightarrow> ((Inl e, w), [GetUserMirascopeSettings, CheckStatus])
              | Inr used_prompt_path \<Rightarrow>
                  if truthy used_prompt_path then
                    ((Inr None,
                      py_print (expandtabs 4 ([CHR 0x09] @ ''mirascope add '' @ prompt_file_name))
                        (py_print ''Changes detected, please add or remove changes first.'' w)),
                     [GetUserMirascopeSettings, CheckStatus])
                  else
                    let version_directory_path = versions_location mirascope_settings;
                        prompt_versions_directory =
                          path_join version_directory_path prompt_file_name;
                        version_file_path =
                          path_join prompt_versions_directory
                            (version_file_name mirascope_settings);
                        calls = [GetUserMirascopeSettings, CheckStatus, FindPromptPath]
                    in (case find_prompt_path U prompt_versions_directory version (files w) of
                          Inl e \<Rightarrow> ((Inl e, w), calls)
                        | Inr None \<Rightarrow>
                            ((Inl (FileNotFoundError
                                     (''Prompt version '' @ version @ '' not found in ''
                                        @ prompt_versions_directory)), w), calls)
                        | Inr (Some revision_file_path) \<Rightarrow>
                            use_checkout_logged U mirascope_settings prompt_file_name version
                              revision_file_path version_file_path w calls)))"

subsection \<open>The pointer file\<close>

text \<open>
  Modelled from the spec: the text format of the pointer file and the helper
  \<^verbatim>\<open>update_version_text_file\<close> of \<^verbatim>\<open>mirascope.cli.utils\<close>, neither of which
  is among the sources. Section 6 of the spec: plain key-value text, one key per line;
  a missing or empty value denotes null. The text between a key and its value is not
  fixed by the spec and is the parameter \<open>sep\<close>. An update rewrites the lines of
  the keys it is given, adds a line for a key that has none, and keeps every other
  line; a pointer file that does not exist is created.
\<close>

definition newline :: char where
  "newline = CHR 0x0A"

fun split_lines :: "string \<Rightarrow> string list" where
  "split_lines [] = []"
| "split_lines (c # cs) =
     (if c = newline then [] # split_lines cs
      else (case split_lines cs of [] \<Rightarrow> [[c]] | l # ls \<Rightarrow> (c # l) # ls))"

definition join_lines :: "string list \<Rightarrow> string" where
  "join_lines ls = concat (map (\<lambda>l. l @ [newline]) ls)"

definition line_value :: "string \<Rightarrow> string \<Rightarrow> string list \<Rightarrow> string option" where
  "line_value sep key ls =
     (case find (prefix (key @ sep)) ls of
        None \<Rightarrow> None
      | Some l \<Rightarrow>
          (if drop (length (key @ sep)) l = [] then None
           else Some (drop (length (key @ sep)) l)))"

definition version_field :: "string \<Rightarrow> string \<Rightarrow> string option \<Rightarrow> string option" where
  "version_field sep key text =
     (case text of None \<Rightarrow> None | Some t \<Rightarrow> line_value sep key (split_lines t))"

definition set_field :: "string \<Rightarrow> string \<Rightarrow> string \<Rightarrow> string list \<Rightarrow> string list" where
  "set_field sep key v ls =
     (if list_ex (prefix (key @ sep)) ls
      then map (\<lambda>l. if prefix (key @ sep) l then key @ sep @ v else l) ls
      else ls @ [key @ sep @ v])"

fun update_lines :: "string \<Rightarrow> (string \<times> string) list \<Rightarrow> string list \<Rightarrow> string list" where
  "update_lines sep [] ls = ls"
| "update_lines sep ((key, v) # kvs) ls = update_lines sep kvs (set_field sep key v ls)"

definition update_version_text_file_spec ::
  "string \<Rightarrow> path \<Rightarrow> (string \<times> string) list \<Rightarrow> filesystem \<Rightarrow> exn + filesystem" where
  "update_version_text_file_spec sep version_file updates fs =
     Inr (fs(version_file \<mapsto>
            join_lines (update_lines sep updates
              (case fs version_file of None \<Rightarrow> [] | Some t \<Rightarrow> split_lines t))))"

section \<open>The status checker and the add command\<close>

text \<open>
  \<^verbatim>\<open>mirascope/cli/commands/add.py\<close> and the body of \<^verbatim>\<open>check_status\<close> are not
  among the sources; only the tests of the add command are. What follows is written
  from sections 4.1 and 4.2 of the spec and from what \<^verbatim>\<open>test_add.py\<close> shows: the
  command asks \<^verbatim>\<open>check_status\<close> first, prints \<^verbatim>\<open>No changes detected.\<close> when it
  answers \<^verbatim>\<open>None\<close>, and reads the pointer file through \<^verbatim>\<open>get_prompt_versions\<close>,
  which returns a \<^verbatim>\<open>VersionTextFile\<close>.
\<close>

record VersionTextFile =
  current_revision :: "string option"
  latest_revision :: "string option"

text \<open>
  The helpers of the add command: those of the use command, the reader of the pointer
  file, and the two directions of the template renderer of section 6 of the spec
  (the text of a snapshot from a prompt body, its previous revision and its tag; the
  bare body of a file's text).
\<close>

record add_utils = utils +
  get_prompt_versions :: "path \<Rightarrow> filesystem \<Rightarrow> exn + VersionTextFile"
  strip_metadata :: "string \<Rightarrow> exn + string"
  render_snapshot :: "string \<Rightarrow> string option \<Rightarrow> string option \<Rightarrow> exn + string"
  revision_tag :: "string \<Rightarrow> string"

text \<open>
  Modelled from the spec: revision numbers (section 6: four digits, zero-padded,
  base 10, starting at \<^verbatim>\<open>0001\<close>) and the name of a snapshot file
  (\<^verbatim>\<open>NNNN_<name>.py\<close>). The code that computes them is not among the sources.
\<close>

definition is_digit :: "char \<Rightarrow> bool" where
  "is_digit c = ((48 :: nat) \<le> of_char c \<and> of_char c \<le> (57 :: nat))"

definition revision_number :: "string \<Rightarrow> nat option" where
  "revision_number r =
     (if r \<noteq> [] \<and> list_all is_digit r
      then Some (foldl (\<lambda>k c. 10 * k + (of_char c - 48)) (0 :: nat) r)
      else None)"

definition digit_char :: "nat \<Rightarrow> char" where
  "digit_char d = char_of (48 + d mod 10)"

fun decimal :: "nat \<Rightarrow> string" where
  "decimal k = (if k < 10 then [digit_char k] else decimal (k div 10) @ [digit_char k])"

declare decimal.simps [simp del]

definition revision_string :: "nat \<Rightarrow> string" where
  "revision_string k = replicate (4 - length (decimal k)) CHR ''0'' @ decimal k"

definition snapshot_path :: "path \<Rightarrow> string \<Rightarrow> string \<Rightarrow> path" where
  "snapshot_path directory revision prompt_name =
     path_join directory (revision @ ''_'' @ prompt_name @ ''.py'')"

text \<open>
  Modelled from the spec: the status checker of section 4.1, whose code is not among
  the sources. It reads the working prompt file, which must exist (its absence is an
  error of its own, not drift); reports drift, by returning the working prompt's path,
  when there is no pointer file or no current revision; otherwise compares the bare
  bodies of the working prompt and of the current revision's snapshot. The spec's
  invariant has the current revision name an existing snapshot; where it does not, the
  read of the snapshot fails.
\<close>

definition check_status_spec ::
  "(path \<Rightarrow> filesystem \<Rightarrow> exn + VersionTextFile) \<Rightarrow> (string \<Rightarrow> exn + string)
     \<Rightarrow> MirascopeSettings \<Rightarrow> string \<Rightarrow> filesystem \<Rightarrow> exn + path option" where
  "check_status_spec read_versions strip settings prompt_name fs =
     (let prompt_path = path_join (prompts_location settings) (prompt_name @ ''.py'');
          directory = path_join (versions_location settings) prompt_name;
          pointer = path_join directory (version_file_name settings)
      in case fs prompt_path of
           None \<Rightarrow> Inl (no_such_file prompt_path)
         | Some working \<Rightarrow>
             if fs pointer = None then Inr (Some prompt_path)
             else (case read_versions pointer fs of
                     Inl e \<Rightarrow> Inl e
                   | Inr versions \<Rightarrow>
                       (case current_revision versions of
                          None \<Rightarrow> Inr (Some prompt_path)
                        | Some revision \<Rightarrow>
                            (case fs (snapshot_path directory revision prompt_name) of
                               None \<Rightarrow>
                                 Inl (no_such_file (snapshot_path directory revision prompt_name))
                             | Some snapshot \<Rightarrow>
                                 (case strip working of
                                    Inl e \<Rightarrow> Inl e
                                  | Inr body \<Rightarrow>
                                      (case strip snapshot of
                                         Inl e \<Rightarrow> Inl e
                                       | Inr committed \<Rightarrow>
                                           Inr (if body = committed then None
                                                else Some prompt_path)))))))"

text \<open>
  Modelled from the spec: steps 1 to 5 of the add operation (section 4.2), whose code is
  not among the sources. It returns the new revision.
\<close>

definition add_commit ::
  "add_utils \<Rightarrow> MirascopeSettings \<Rightarrow> string \<Rightarrow> world \<Rightarrow> (exn + string option) \<times> world" where
  "add_commit A settings prompt_name w =
     (let prompt_path = path_join (prompts_location settings) (prompt_name @ ''.py'');
          directory = path_join (versions_location settings) prompt_name;
          pointer = path_join directory (version_file_name settings)
      in case (if files w pointer = None
               then Inr \<lparr>current_revision = None, latest_revision = None\<rparr>
               else get_prompt_versions A pointer (files w)) of
           Inl e \<Rightarrow> (Inl e, w)
         | Inr versions \<Rightarrow>
            (case (case latest_revision versions of
                     None \<Rightarrow> Some 1
                   | Some latest \<Rightarrow> map_option Suc (revision_number latest)) of
               None \<Rightarrow> (Inl (Exception ''latest_revision is not a revision number''), w)
             | Some next_revision \<Rightarrow>
                (case files w prompt_path of
                   None \<Rightarrow> (Inl (no_such_file prompt_path), w)
                 | Some content \<Rightarrow>
                    let revision = revision_string next_revision;
                        w0 = log_event (OpenRead prompt_path) w
                    in (case render_snapshot A content (current_revision versions)
                               (if auto_tag settings then Some (revision_tag A revision)
                                else None) of
                          Inl e \<Rightarrow> (Inl e, w0)
                        | Inr snapshot \<Rightarrow>
                           let new_path = snapshot_path directory revision prompt_name;
                               w1 = log_event (FileWrite new_path snapshot)
                                      (w0\<lparr>files := (files w0)(new_path \<mapsto> snapshot)\<rparr>);
                               keys = [(CURRENT_REVISION_KEY, revision),
                                       (LATEST_REVISION_KEY, revision)]
                           in (case update_version_text_file A pointer keys (files w1) of
                                 Inl e \<Rightarrow> (Inl e, w1)
                               | Inr fs \<Rightarrow>
                                  let w2 = log_event (UpdateVersionFile pointer keys)
                                             (w1\<lparr>files := fs\<rparr>)
                                  in (case write_prompt_to_template A snapshot ADD of
                                        Inl e \<Rightarrow> (Inl e, w2)
                                      | Inr rendered \<Rightarrow>
                                         let w3 = log_event (FileWrite prompt_path rendered)
                                                    (w2\<lparr>files :=
                                                       (files w2)(prompt_path \<mapsto> rendered)\<rparr>)
                                         in (case run_format_command A prompt_path (files w3) of
                                               Inl e \<Rightarrow> (Inl e, w3)
                                             | Inr fs' \<Rightarrow>
                                                (Inr (Some revision),
                                                 py_print new_path
                                                   (log_event (RunFormat prompt_path)
                                                      (w3\<lparr>files := fs'\<rparr>))))))))))"

text \<open>
  Modelled from the spec: the add command (section 4.2 and the command-line surface of
  section 6), whose code is not among the sources. The order of its first steps and the
  message are those \<^verbatim>\<open>test_add_no_changes\<close> observes: with \<^verbatim>\<open>check_status\<close>
  answering \<^verbatim>\<open>None\<close>, the output is \<^verbatim>\<open>No changes detected.\<close> even for a prompt
  that has no file.
\<close>

definition add_command ::
  "add_utils \<Rightarrow> string \<Rightarrow> world \<Rightarrow> (exn + string option) \<times> world" where
  "add_command A prompt_name w =
     (case get_user_mirascope_settings A (files w) of
        Inl e \<Rightarrow> (Inl e, w)
      | Inr settings \<Rightarrow>
          (case check_status A settings prompt_name (files w) of
             Inl e \<Rightarrow> (Inl e, w)
           | Inr status \<Rightarrow>
               if truthy status then add_commit A settings prompt_name w
               else (Inr None, py_print ''No changes detected.'' w)))"

text \<open>
  Modelled from the spec: the reader of the pointer file, \<^verbatim>\<open>get_prompt_versions\<close>,
  over the text format of section 6. Its code is not among the sources.
\<close>

definition get_prompt_versions_spec :: "string \<Rightarrow> path \<Rightarrow> filesystem \<Rightarrow> exn + VersionTextFile" where
  "get_prompt_versions_spec sep version_file fs =
     Inr \<lparr>current_revision = version_field sep CURRENT_REVISION_KEY (fs version_file),
          latest_revision = version_field sep LATEST_REVISION_KEY (fs version_file)\<rparr>"

subsection \<open>A concrete project\<close>

text \<open>
  The project of the tests: the settings of \<^verbatim>\<open>test_add.py\<close> and the prompt
  \<^verbatim>\<open>simple_prompt\<close>, after two commits. The status checker answers what it is
  told to, as the mocked \<^verbatim>\<open>check_status\<close> of the tests does; the snapshot lookup
  finds the file named after the revision; the renderer puts a header line naming the
  command before the text; the formatter leaves the file as it is.
\<close>

definition example_settings :: MirascopeSettings where
  "example_settings =
     \<lparr>mirascope_location = ''.mirascope'', auto_tag = True,
      version_file_name = ''version.txt'', prompts_location = ''prompts'',
      versions_location = ''versions''\<rparr>"

definition example_render :: "string \<Rightarrow> MirascopeCommand \<Rightarrow> exn + string" where
  "example_render content command =
     Inr ((case command of ADD \<Rightarrow> ''# added'' | USE \<Rightarrow> ''# used'') @ [newline] @ content)"

definition example_find :: "path \<Rightarrow> string \<Rightarrow> filesystem \<Rightarrow> exn + path option" where
  "example_find directory version fs =
     Inr (if fs (path_join directory (version @ ''_simple_prompt.py'')) = None then None
          else Some (path_join directory (version @ ''_simple_prompt.py'')))"

definition example_utils :: "path option \<Rightarrow> utils" where
  "example_utils status =
     \<lparr>get_user_mirascope_settings = (\<lambda>fs. Inr example_settings),
      check_status = (\<lambda>settings name fs. Inr status),
      find_prompt_path = example_find,
      write_prompt_to_template = example_render,
      run_format_command = (\<lambda>p fs. Inr fs),
      update_version_text_file = update_version_text_file_spec ''=''\<rparr>"

definition example_files :: filesystem where
  "example_files =
     [''prompts/simple_prompt.py'' \<mapsto> ''# added'' @ [newline] @ ''Recommend a fantasy book.'',
      ''versions/simple_prompt/0001_simple_prompt.py'' \<mapsto> ''Recommend a book.'',
      ''versions/simple_prompt/0002_simple_prompt.py'' \<mapsto> ''Recommend a fantasy book.'',
      ''versions/simple_prompt/version.txt'' \<mapsto>
         ''current_revision=0002'' @ [newline] @ ''latest_revision=0002'' @ [newline]]"

definition example_world :: world where
  "example_world = \<lparr>files = example_files, stdout = [], trace = []\<rparr>"

text \<open>The project after \<^verbatim>\<open>mirascope use simple_prompt 0001\<close>.\<close>

definition example_after_use :: world where
  "example_after_use =
     \<lparr>files = example_files(''prompts/simple_prompt.py'' \<mapsto>
                        ''# used'' @ [newline] @ ''Recommend a book.'',
                      ''versions/simple_prompt/version.txt'' \<mapsto>
                        ''current_revision=0001'' @ [newline] @ ''latest_revision=0002'' @ [newline]),
      stdout = [''Using versions/simple_prompt/0001_simple_prompt.py''],
      trace = [OpenRead ''versions/simple_prompt/0001_simple_prompt.py'',
               OpenWrite ''prompts/simple_prompt.py'',
               FileWrite ''prompts/simple_prompt.py'' (''# used'' @ [newline] @ ''Recommend a book.''),
               RunFormat ''prompts/simple_prompt.py'',
               UpdateVersionFile ''versions/simple_prompt/version.txt''
                 [(CURRENT_REVISION_KEY, ''0001'')]]\<rparr>"

text \<open>
  Two variants of the project's helpers: a template renderer that cannot parse the
  metadata of the file it is given, and a formatter that raises.
\<close>

definition example_utils_failing_render :: utils where
  "example_utils_failing_render =
     (example_utils None)\<lparr>write_prompt_to_template :=
        (\<lambda>content command. Inl (Exception ''metadata could not be parsed''))\<rparr>"

definition example_utils_failing_format :: utils where
  "example_utils_failing_format =
     (example_utils None)\<lparr>run_format_command :=
        (\<lambda>p fs. Inl (Exception ''formatter failed''))\<rparr>"

text \<open>
  A third variant: a snapshot lookup that resolves the alias \<^verbatim>\<open>beta\<close> to revision
  \<^verbatim>\<open>0002\<close>, as the alias resolution of section 4.3 of the spec has it.
\<close>

definition example_utils_alias :: utils where
  "example_utils_alias =
     (example_utils None)\<lparr>find_prompt_path :=
        (\<lambda>directory version fs.
           Inr (if version = ''beta''
                then Some ''versions/simple_prompt/0002_simple_prompt.py'' else None))\<rparr>"

text \<open>
  The same project for the add command. The bare body of a file is its text without
  the header line; a snapshot is the prompt body as it stands.
\<close>

definition example_strip :: "string \<Rightarrow> exn + string" where
  "example_strip text =
     Inr (if text \<noteq> [] \<and> hd text = CHR ''#''
          then drop 1 (dropWhile (\<lambda>c. c \<noteq> newline) text) else text)"

definition example_add_utils ::
  "(MirascopeSettings \<Rightarrow> string \<Rightarrow> filesystem \<Rightarrow> exn + path option) \<Rightarrow> add_utils" where
  "example_add_utils checker =
     \<lparr>get_user_mirascope_settings = (\<lambda>fs. Inr example_settings),
      check_status = checker,
      find_prompt_path = example_find,
      write_prompt_to_template = example_render,
      run_format_command = (\<lambda>p fs. Inr fs),
      update_version_text_file = update_version_text_file_spec ''='',
      get_prompt_versions = get_prompt_versions_spec ''='',
      strip_metadata = example_strip,
      render_snapshot = (\<lambda>content prev tag. Inr content),
      revision_tag = (\<lambda>revision. ''version:'' @ revision)\<rparr>"

text \<open>The same helpers with the status checker of section 4.1 in place.\<close>

definition example_add_utils_checked :: add_utils where
  "example_add_utils_checked =
     example_add_utils (check_status_spec (get_prompt_versions_spec ''='') example_strip)"

section \<open>Properties of the use command\<close>

subsection \<open>The outcome of each path through the command\<close>

lemma path_join_py_nonempty: "path_join a (n @ ''.py'') \<noteq> []"
  by (simp add: path_join_def)

lemma use_command_settings_raise:
  "get_user_mirascope_settings U (files w) = Inl e \<Longrightarrow> use_command U n a v w = (Inl e, w)"
  by (simp add: use_command_def)

lemma use_command_status_raise:
  "get_user_mirascope_settings U (files w) = Inr s \<Longrightarrow>
   check_status U s n (files w) = Inl e \<Longrightarrow> use_command U n a v w = (Inl e, w)"
  by (simp add: use_command_def)

lemma use_command_drift:
  assumes "get_user_mirascope_settings U (files w) = Inr s"
    and "check_status U s n (files w) = Inr st"
    and "truthy st"
  shows "use_command U n a v w =
    (Inr None, w\<lparr>stdout := stdout w @
       [''Changes detected, please add or remove changes first.'',
        expandtabs 4 ([CHR 0x09] @ ''mirascope add '' @ n)]\<rparr>)"
  using assms by (simp add: use_command_def py_print_def)

lemma use_command_no_drift:
  assumes "get_user_mirascope_settings U (files w) = Inr s"
    and "check_status U s n (files w) = Inr st"
    and "\<not> truthy st"
  shows "use_command U n a v w =
    (case find_prompt_path U (path_join (versions_location s) n) (resolved_version a v) (files w) of
       Inl e \<Rightarrow> (Inl e, w)
     | Inr None \<Rightarrow>
         (Inl (FileNotFoundError (''Prompt version '' @ resolved_version a v @ '' not found in ''
            @ path_join (versions_location s) n)), w)
     | Inr (Some rp) \<Rightarrow>
         use_checkout U s n (resolved_version a v) rp
           (path_join (path_join (versions_location s) n) (version_file_name s)) w)"
  using assms by (simp add: use_command_def Let_def)

lemma use_checkout_read_fails:
  "files w rp = None \<Longrightarrow> use_checkout U s n ver rp vp w = (Inl (no_such_file rp), w)"
  by (simp add: use_checkout_def)

lemma use_checkout_render_raise:
  assumes "files w rp = Some content"
    and "write_prompt_to_template U content USE = Inl e"
  shows "use_checkout U s n ver rp vp w =
    (Inl e, w\<lparr>files := (files w)(path_join (prompts_location s) (n @ ''.py'') \<mapsto> []),
              trace := trace w @ [OpenRead rp, OpenWrite (path_join (prompts_location s) (n @ ''.py''))]\<rparr>)"
  using assms by (simp add: use_checkout_def log_event_def Let_def)

lemma use_checkout_format_raise:
  assumes "files w rp = Some content"
    and "write_prompt_to_template U content USE = Inr rendered"
    and "run_format_command U (path_join (prompts_location s) (n @ ''.py''))
           ((files w)(path_join (prompts_location s) (n @ ''.py'') \<mapsto> rendered)) = Inl e"
  shows "use_checkout U s n ver rp vp w =
    (Inl e, w\<lparr>files := (files w)(path_join (prompts_location s) (n @ ''.py'') \<mapsto> rendered),
              trace := trace w @ [OpenRead rp, OpenWrite (path_join (prompts_location s) (n @ ''.py'')),
                 FileWrite (path_join (prompts_location s) (n @ ''.py'')) rendered]\<rparr>)"
  using assms by (simp add: use_checkout_def log_event_def Let_def path_join_py_nonempty)

lemma use_checkout_update_raise:
  assumes "files w rp = Some content"
    and "write_prompt_to_template U content USE = Inr rendered"
    and "run_format_command U (path_join (prompts_location s) (n @ ''.py''))
           ((files w)(path_join (prompts_location s) (n @ ''.py'') \<mapsto> rendered)) = Inr fs1"
    and "update_version_text_file U vp [(CURRENT_REVISION_KEY, ver)] fs1 = Inl e"
  shows "use_checkout U s n ver rp vp w =
    (Inl e, w\<lparr>files := fs1,
              trace := trace w @ [OpenRead rp, OpenWrite (path_join (prompts_location s) (n @ ''.py'')),
                 FileWrite (path_join (prompts_location s) (n @ ''.py'')) rendered,
                 RunFormat (path_join (prompts_location s) (n @ ''.py''))]\<rparr>)"
  using assms by (simp add: use_checkout_def log_event_def Let_def path_join_py_nonempty)

lemma use_checkout_done:
  assumes "files w rp = Some content"
    and "write_prompt_to_template U content USE = Inr rendered"
    and "run_format_command U (path_join (prompts_location s) (n @ ''.py''))
           ((files w)(path_join (prompts_location s) (n @ ''.py'') \<mapsto> rendered)) = Inr fs1"
    and "update_version_text_file U vp [(CURRENT_REVISION_KEY, ver)] fs1 = Inr fs2"
  shows "use_checkout U s n ver rp vp w =
    (Inr None, w\<lparr>files := fs2,
              stdout := stdout w @ [''Using '' @ rp],
              trace := trace w @ [OpenRead rp, OpenWrite (path_join (prompts_location s) (n @ ''.py'')),
                 FileWrite (path_join (prompts_location s) (n @ ''.py'')) rendered,
                 RunFormat (path_join (prompts_location s) (n @ ''.py'')),
                 UpdateVersionFile vp [(CURRENT_REVISION_KEY, ver)]]\<rparr>)"
  using assms by (simp add: use_checkout_def log_event_def py_print_def Let_def path_join_py_nonempty)

lemma use_checkout_returns:
  assumes "use_checkout U s n ver rp vp w = (Inr r, w')"
  shows "\<exists>content rendered fs1.
    files w rp = Some content \<and>
    write_prompt_to_template U content USE = Inr rendered \<and>
    run_format_command U (path_join (prompts_location s) (n @ ''.py''))
       ((files w)(path_join (prompts_location s) (n @ ''.py'') \<mapsto> rendered)) = Inr fs1 \<and>
    update_version_text_file U vp [(CURRENT_REVISION_KEY, ver)] fs1 = Inr (files w') \<and>
    r = None \<and>
    stdout w' = stdout w @ [''Using '' @ rp] \<and>
    trace w' = trace w @ [OpenRead rp, OpenWrite (path_join (prompts_location s) (n @ ''.py'')),
                 FileWrite (path_join (prompts_location s) (n @ ''.py'')) rendered,
                 RunFormat (path_join (prompts_location s) (n @ ''.py'')),
                 UpdateVersionFile vp [(CURRENT_REVISION_KEY, ver)]]"
proof (cases "files w rp")
  case None
  with assms show ?thesis by (simp add: use_checkout_read_fails)
next
  case (Some content)
  note c = this
  show ?thesis
  proof (cases "write_prompt_to_template U content USE")
    case (Inl e)
    with assms c show ?thesis by (simp add: use_checkout_render_raise)
  next
    case (Inr rendered)
    note r = this
    show ?thesis
    proof (cases "run_format_command U (path_join (prompts_location s) (n @ ''.py''))
           ((files w)(path_join (prompts_location s) (n @ ''.py'') \<mapsto> rendered))")
      case (Inl e)
      with assms c r show ?thesis by (simp add: use_checkout_format_raise)
    next
      case (Inr fs1)
      note f = this
      show ?thesis
      proof (cases "update_version_text_file U vp [(CURRENT_REVISION_KEY, ver)] fs1")
        case (Inl e)
        with assms c r f show ?thesis by (simp add: use_checkout_update_raise)
      next
        case (Inr fs2)
        from use_checkout_done [OF c r f Inr] assms
        have "r = None" and "w' = w\<lparr>files := fs2,
              stdout := stdout w @ [''Using '' @ rp],
              trace := trace w @ [OpenRead rp, OpenWrite (path_join (prompts_location s) (n @ ''.py'')),
                 FileWrite (path_join (prompts_location s) (n @ ''.py'')) rendered,
                 RunFormat (path_join (prompts_location s) (n @ ''.py'')),
                 UpdateVersionFile vp [(CURRENT_REVISION_KEY, ver)]]\<rparr>"
          by simp_all
        with c r f Inr show ?thesis by simp
      qed
    qed
  qed
qed

lemma use_command_returns:
  assumes "get_user_mirascope_settings U (files w) = Inr s"
    and "check_status U s n (files w) = Inr st"
    and "\<not> truthy st"
    and "use_command U n a v w = (Inr r, w')"
  shows "\<exists>rp content rendered fs1.
    find_prompt_path U (path_join (versions_location s) n) (resolved_version a v) (files w)
      = Inr (Some rp) \<and>
    files w rp = Some content \<and>
    write_prompt_to_template U content USE = Inr rendered \<and>
    run_format_command U (path_join (prompts_location s) (n @ ''.py''))
       ((files w)(path_join (prompts_location s) (n @ ''.py'') \<mapsto> rendered)) = Inr fs1 \<and>
    update_version_text_file U
       (path_join (path_join (versions_location s) n) (version_file_name s))
       [(CURRENT_REVISION_KEY, resolved_version a v)] fs1 = Inr (files w') \<and>
    r = None \<and>
    stdout w' = stdout w @ [''Using '' @ rp] \<and>
    trace w' = trace w @ [OpenRead rp, OpenWrite (path_join (prompts_location s) (n @ ''.py'')),
                 FileWrite (path_join (prompts_location s) (n @ ''.py'')) rendered,
                 RunFormat (path_join (prompts_location s) (n @ ''.py'')),
                 UpdateVersionFile
                   (path_join (path_join (versions_location s) n) (version_file_name s))
                   [(CURRENT_REVISION_KEY, resolved_version a v)]]"
proof (cases "find_prompt_path U (path_join (versions_location s) n) (resolved_version a v) (files w)")
  case (Inl e)
  with use_command_no_drift [OF assms(1-3), of a v] assms(4) show ?thesis by simp
next
  case (Inr found)
  show ?thesis
  proof (cases found)
    case None
    with Inr use_command_no_drift [OF assms(1-3), of a v] assms(4) show ?thesis by simp
  next
    case (Some rp)
    with Inr use_command_no_drift [OF assms(1-3), of a v] assms(4)
    have "use_checkout U s n (resolved_version a v) rp
            (path_join (path_join (versions_location s) n) (version_file_name s)) w = (Inr r, w')"
      by simp
    from use_checkout_returns [OF this] Inr Some show ?thesis by blast
  qed
qed

lemma resolved_version_None: "resolved_version a None = a"
  by (simp add: resolved_version_def)

lemma use_command_key_only:
  "use_command U n a v w = use_command U n (resolved_version a v) None w"
  by (simp add: use_command_def resolved_version_None)

lemma use_checkout_trace_read:
  assumes "files w rp = Some content"
  shows "\<exists>evs. trace (snd (use_checkout U s n ver rp vp w)) = trace w @ OpenRead rp # evs"
proof (cases "write_prompt_to_template U content USE")
  case (Inl e)
  from use_checkout_render_raise [OF assms Inl] show ?thesis by simp
next
  case (Inr rendered)
  note r = this
  show ?thesis
  proof (cases "run_format_command U (path_join (prompts_location s) (n @ ''.py''))
           ((files w)(path_join (prompts_location s) (n @ ''.py'') \<mapsto> rendered))")
    case (Inl e)
    from use_checkout_format_raise [OF assms r Inl] show ?thesis by simp
  next
    case (Inr fs1)
    note f = this
    show ?thesis
    proof (cases "update_version_text_file U vp [(CURRENT_REVISION_KEY, ver)] fs1")
      case (Inl e)
      from use_checkout_update_raise [OF assms r f Inl] show ?thesis by simp
    next
      case (Inr fs2)
      from use_checkout_done [OF assms r f Inr] show ?thesis by simp
    qed
  qed
qed

lemma use_checkout_trace_once:
  "\<exists>evs. trace (snd (use_checkout U s n ver rp vp w)) = trace w @ evs
      \<and> distinct evs \<and> length evs \<le> 5"
proof (cases "files w rp")
  case None
  then show ?thesis by (simp add: use_checkout_read_fails)
next
  case (Some content)
  note c = this
  show ?thesis
  proof (cases "write_prompt_to_template U content USE")
    case (Inl e)
    from use_checkout_render_raise [OF c Inl] show ?thesis by simp
  next
    case (Inr rendered)
    note r = this
    show ?thesis
    proof (cases "run_format_command U (path_join (prompts_location s) (n @ ''.py''))
             ((files w)(path_join (prompts_location s) (n @ ''.py'') \<mapsto> rendered))")
      case (Inl e)
      from use_checkout_format_raise [OF c r Inl] show ?thesis by simp
    next
      case (Inr fs1)
      note f = this
      show ?thesis
      proof (cases "update_version_text_file U vp [(CURRENT_REVISION_KEY, ver)] fs1")
        case (Inl e)
        from use_checkout_update_raise [OF c r f Inl] show ?thesis by simp
      next
        case (Inr fs2)
        from use_checkout_done [OF c r f Inr] show ?thesis by simp
      qed
    qed
  qed
qed

lemma use_command_trace_once:
  "\<exists>evs. trace (snd (use_command U n a v w)) = trace w @ evs \<and> distinct evs \<and> length evs \<le> 5"
proof (cases "get_user_mirascope_settings U (files w)")
  case (Inl e)
  then show ?thesis by (simp add: use_command_settings_raise)
next
  case (Inr s)
  note s = this
  show ?thesis
  proof (cases "check_status U s n (files w)")
    case (Inl e)
    with s show ?thesis by (simp add: use_command_status_raise)
  next
    case (Inr st)
    note c = this
    show ?thesis
    proof (cases "truthy st")
      case True
      from use_command_drift [OF s c True, of a v] show ?thesis by simp
    next
      case False
      note nd = use_command_no_drift [OF s c False, of a v]
      show ?thesis
      proof (cases "find_prompt_path U (path_join (versions_location s) n)
                      (resolved_version a v) (files w)")
        case (Inl e)
        with nd show ?thesis by simp
      next
        case (Inr found)
        show ?thesis
        proof (cases found)
          case None
          with Inr nd show ?thesis by simp
        next
          case (Some rp)
          with Inr nd use_checkout_trace_once show ?thesis by simp
        qed
      qed
    qed
  qed
qed

subsection \<open>The helpers a run calls\<close>

lemma use_checkout_logged_outcome:
  "fst (use_checkout_logged U s n ver rp vp w calls) = use_checkout U s n ver rp vp w"
  by (simp add: use_checkout_logged_def use_checkout_def Let_def
        split: option.splits sum.splits)

lemma use_command_logged_outcome:
  "fst (use_command_logged U n a v w) = use_command U n a v w"
  by (simp add: use_command_logged_def use_command_def Let_def use_checkout_logged_outcome
        split: option.splits sum.splits)

lemma use_checkout_logged_render_raise:
  assumes "files w rp = Some content"
    and "write_prompt_to_template U content USE = Inl e"
  shows "snd (use_checkout_logged U s n ver rp vp w calls) = calls @ [WritePromptToTemplate]"
  using assms by (simp add: use_checkout_logged_def Let_def)

lemma use_checkout_logged_calls:
  "\<exists>more. snd (use_checkout_logged U s n ver rp vp w calls) = calls @ more
     \<and> prefix more [WritePromptToTemplate, RunFormatCommand, UpdateVersionTextFile]"
  by (simp add: use_checkout_logged_def Let_def path_join_py_nonempty
        split: option.splits sum.splits)

lemma use_command_logged_status_raise:
  assumes "get_user_mirascope_settings U (files w) = Inr s"
    and "check_status U s n (files w) = Inl e"
  shows "snd (use_command_logged U n a v w) = [GetUserMirascopeSettings, CheckStatus]"
  using assms by (simp add: use_command_logged_def)

lemma use_command_logged_drift:
  assumes "get_user_mirascope_settings U (files w) = Inr s"
    and "check_status U s n (files w) = Inr st"
    and "truthy st"
  shows "snd (use_command_logged U n a v w) = [GetUserMirascopeSettings, CheckStatus]"
  using assms by (simp add: use_command_logged_def)

lemma use_command_logged_no_drift:
  assumes "get_user_mirascope_settings U (files w) = Inr s"
    and "check_status U s n (files w) = Inr st"
    and "\<not> truthy st"
  shows "snd (use_command_logged U n a v w) =
    (case find_prompt_path U (path_join (versions_location s) n) (resolved_version a v) (files w) of
       Inl e \<Rightarrow> [GetUserMirascopeSettings, CheckStatus, FindPromptPath]
     | Inr None \<Rightarrow> [GetUserMirascopeSettings, CheckStatus, FindPromptPath]
     | Inr (Some rp) \<Rightarrow>
         snd (use_checkout_logged U s n (resolved_version a v) rp
           (path_join (path_join (versions_location s) n) (version_file_name s)) w
           [GetUserMirascopeSettings, CheckStatus, FindPromptPath]))"
  using assms
  by (simp add: use_command_logged_def Let_def split: option.splits sum.splits)

lemma use_command_logged_calls:
  "prefix (snd (use_command_logged U n a v w))
     [GetUserMirascopeSettings, CheckStatus, FindPromptPath,
      WritePromptToTemplate, RunFormatCommand, UpdateVersionTextFile]"
proof (cases "get_user_mirascope_settings U (files w)")
  case (Inl e)
  then show ?thesis by (simp add: use_command_logged_def)
next
  case (Inr s)
  note s = this
  show ?thesis
  proof (cases "check_status U s n (files w)")
    case (Inl e)
    from use_command_logged_status_raise [OF s this, of a v] show ?thesis by simp
  next
    case (Inr st)
    note c = this
    show ?thesis
    proof (cases "truthy st")
      case True
      from use_command_logged_drift [OF s c True, of a v] show ?thesis by simp
    next
      case False
      note nd = use_command_logged_no_drift [OF s c False, of a v]
      show ?thesis
      proof (cases "find_prompt_path U (path_join (versions_location s) n)
                      (resolved_version a v) (files w)")
        case (Inl e)
        with nd show ?thesis by simp
      next
        case (Inr found)
        show ?thesis
        proof (cases found)
          case None
          with Inr nd show ?thesis by simp
        next
          case (Some rp)
          from use_checkout_logged_calls [of U s n "resolved_version a v" rp
              "path_join (path_join (versions_location s) n) (version_file_name s)" w
              "[GetUserMirascopeSettings, CheckStatus, FindPromptPath]"]
          obtain more where
            "snd (use_checkout_logged U s n (resolved_version a v) rp
               (path_join (path_join (versions_location s) n) (version_file_name s)) w
               [GetUserMirascopeSettings, CheckStatus, FindPromptPath])
             = [GetUserMirascopeSettings, CheckStatus, FindPromptPath] @ more"
            and "prefix more [WritePromptToTemplate, RunFormatCommand, UpdateVersionTextFile]"
            by blast
          with Inr Some nd show ?thesis by simp
        qed
      qed
    qed
  qed
qed

lemma use_command_logged_distinct:
  "distinct (snd (use_command_logged U n a v w))"
proof -
  from use_command_logged_calls [of U n a v w] obtain rest where
    "[GetUserMirascopeSettings, CheckStatus, FindPromptPath,
      WritePromptToTemplate, RunFormatCommand, UpdateVersionTextFile]
     = snd (use_command_logged U n a v w) @ rest"
    by (auto simp: prefix_def)
  moreover have "distinct [GetUserMirascopeSettings, CheckStatus, FindPromptPath,
      WritePromptToTemplate, RunFormatCommand, UpdateVersionTextFile]"
    by simp
  ultimately show ?thesis by (metis distinct_append)
qed

subsection \<open>The pointer file: reading a field after an update\<close>

lemma split_lines_line:
  "newline \<notin> set l \<Longrightarrow> split_lines (l @ newline # rest) = l # split_lines rest"
  by (induction l) auto

lemma split_lines_join_lines:
  "(\<And>l. l \<in> set ls \<Longrightarrow> newline \<notin> set l) \<Longrightarrow> split_lines (join_lines ls) = ls"
proof (induction ls)
  case Nil
  show ?case by (simp add: join_lines_def)
next
  case (Cons l ls)
  have "join_lines (l # ls) = l @ newline # join_lines ls"
    by (simp add: join_lines_def)
  with Cons show ?case by (simp add: split_lines_line)
qed

lemma split_lines_no_newline:
  "l \<in> set (split_lines t) \<Longrightarrow> newline \<notin> set l"
proof (induction t arbitrary: l)
  case Nil
  then show ?case by simp
next
  case (Cons c t)
  show ?case
  proof (cases "c = newline")
    case True
    with Cons show ?thesis by auto
  next
    case False
    with Cons show ?thesis by (cases "split_lines t") auto
  qed
qed

lemma set_field_no_newline:
  assumes "\<And>l. l \<in> set ls \<Longrightarrow> newline \<notin> set l"
    and "newline \<notin> set (key @ sep @ v)"
    and "l \<in> set (set_field sep key v ls)"
  shows "newline \<notin> set l"
  using assms by (auto simp: set_field_def split: if_splits)

lemma find_app:
  "find P (xs @ ys) = (case find P xs of None \<Rightarrow> find P ys | Some x \<Rightarrow> Some x)"
  by (induction xs) auto

lemma find_set_field_same:
  "find (prefix (key @ sep)) (set_field sep key v ls) = Some (key @ sep @ v)"
proof (cases "list_ex (prefix (key @ sep)) ls")
  case True
  then have "find (prefix (key @ sep))
      (map (\<lambda>l. if prefix (key @ sep) l then key @ sep @ v else l) ls) = Some (key @ sep @ v)"
    by (induction ls) auto
  with True show ?thesis by (simp add: set_field_def)
next
  case False
  then have "find (prefix (key @ sep)) ls = None"
    by (induction ls) auto
  with False show ?thesis by (simp add: set_field_def find_app)
qed

lemma prefix_apart:
  assumes "\<not> prefix x y" and "\<not> prefix y x" and "prefix x l"
  shows "\<not> prefix y l"
  using assms prefix_same_cases by blast

lemma find_set_field_other:
  assumes "\<not> prefix (key @ sep) (other @ sep)" and "\<not> prefix (other @ sep) (key @ sep)"
  shows "find (prefix (other @ sep)) (set_field sep key v ls) = find (prefix (other @ sep)) ls"
proof -
  have new: "\<not> prefix (other @ sep) (key @ sep @ v)"
    using prefix_apart [OF assms, of "key @ sep @ v"] by simp
  have old: "\<And>l. prefix (key @ sep) l \<Longrightarrow> \<not> prefix (other @ sep) l"
    using prefix_apart [OF assms] by blast
  have "find (prefix (other @ sep))
      (map (\<lambda>l. if prefix (key @ sep) l then key @ sep @ v else l) ls)
      = find (prefix (other @ sep)) ls"
    using new old by (induction ls) auto
  moreover have "find (prefix (other @ sep)) (ls @ [key @ sep @ v])
      = find (prefix (other @ sep)) ls"
    using new by (simp add: find_app split: option.splits)
  ultimately show ?thesis by (simp add: set_field_def)
qed

lemma line_value_set_field_same:
  "line_value sep key (set_field sep key v ls) = (if v = [] then None else Some v)"
  by (simp add: line_value_def find_set_field_same)

lemma line_value_set_field_other:
  assumes "\<not> prefix (key @ sep) (other @ sep)" and "\<not> prefix (other @ sep) (key @ sep)"
  shows "line_value sep other (set_field sep key v ls) = line_value sep other ls"
  by (simp add: line_value_def find_set_field_other [OF assms])

lemma update_spec_lines:
  assumes "update_version_text_file_spec sep vp [(key, v)] fs = Inr fs'"
    and "newline \<notin> set (key @ sep @ v)"
    and "ls = (case fs vp of None \<Rightarrow> [] | Some t \<Rightarrow> split_lines t)"
  shows "fs' = fs(vp \<mapsto> join_lines (set_field sep key v ls))"
    and "split_lines (join_lines (set_field sep key v ls)) = set_field sep key v ls"
proof -
  have clean: "\<And>l. l \<in> set ls \<Longrightarrow> newline \<notin> set l"
    by (auto simp: assms(3) split_lines_no_newline split: option.splits)
  from assms(1) show "fs' = fs(vp \<mapsto> join_lines (set_field sep key v ls))"
    by (auto simp: update_version_text_file_spec_def assms(3))
  show "split_lines (join_lines (set_field sep key v ls)) = set_field sep key v ls"
    by (rule split_lines_join_lines) (rule set_field_no_newline [OF clean assms(2)])
qed

lemma version_field_updated:
  assumes "update_version_text_file_spec sep vp [(key, v)] fs = Inr fs'"
    and "newline \<notin> set (key @ sep @ v)"
  shows "version_field sep key (fs' vp) = (if v = [] then None else Some v)"
  using update_spec_lines [OF assms refl]
  by (simp add: version_field_def line_value_set_field_same)

lemma version_field_kept:
  assumes "update_version_text_file_spec sep vp [(key, v)] fs = Inr fs'"
    and "newline \<notin> set (key @ sep @ v)"
    and "\<not> prefix (key @ sep) (other @ sep)" and "\<not> prefix (other @ sep) (key @ sep)"
  shows "version_field sep other (fs' vp) = version_field sep other (fs vp)"
proof -
  have "version_field sep other (fs' vp)
      = line_value sep other (case fs vp of None \<Rightarrow> [] | Some t \<Rightarrow> split_lines t)"
    using update_spec_lines [OF assms(1,2) refl]
    by (simp add: version_field_def line_value_set_field_other [OF assms(3,4)])
  also have "\<dots> = version_field sep other (fs vp)"
    by (simp add: version_field_def line_value_def split: option.splits)
  finally show ?thesis .
qed

lemma keys_apart:
  "\<not> prefix (CURRENT_REVISION_KEY @ sep) (LATEST_REVISION_KEY @ sep)"
  "\<not> prefix (LATEST_REVISION_KEY @ sep) (CURRENT_REVISION_KEY @ sep)"
  by (simp_all add: CURRENT_REVISION_KEY_def LATEST_REVISION_KEY_def)

lemma current_key_no_newline: "newline \<notin> set CURRENT_REVISION_KEY"
  by (simp add: CURRENT_REVISION_KEY_def newline_def)

subsection \<open>The concrete project, evaluated\<close>

lemma example_paths:
  "path_join ''versions'' ''simple_prompt'' = ''versions/simple_prompt''"
  "path_join ''versions/simple_prompt'' ''version.txt'' = ''versions/simple_prompt/version.txt''"
  "path_join ''prompts'' ''simple_prompt.py'' = ''prompts/simple_prompt.py''"
  "path_join ''versions/simple_prompt'' ''0001_simple_prompt.py''
     = ''versions/simple_prompt/0001_simple_prompt.py''"
  "path_join ''versions/simple_prompt'' ''0003_simple_prompt.py''
     = ''versions/simple_prompt/0003_simple_prompt.py''"
  by (simp_all add: path_join_def)

lemma example_files_lookup:
  "example_files ''versions/simple_prompt/0001_simple_prompt.py'' = Some ''Recommend a book.''"
  "example_files ''versions/simple_prompt/0003_simple_prompt.py'' = None"
  "example_files ''versions/simple_prompt/version.txt'' =
     Some (''current_revision=0002'' @ [newline] @ ''latest_revision=0002'' @ [newline])"
  by (simp_all add: example_files_def)

lemma example_helpers:
  "get_user_mirascope_settings (example_utils st) fs = Inr example_settings"
  "check_status (example_utils st) s n fs = Inr st"
  "find_prompt_path (example_utils st) = example_find"
  "write_prompt_to_template (example_utils st) = example_render"
  "run_format_command (example_utils st) p fs = Inr fs"
  "update_version_text_file (example_utils st) = update_version_text_file_spec ''=''"
  "versions_location example_settings = ''versions''"
  "prompts_location example_settings = ''prompts''"
  "version_file_name example_settings = ''version.txt''"
  "files example_world = example_files"
  "stdout example_world = []"
  "trace example_world = []"
  by (simp_all add: example_utils_def example_settings_def example_world_def)

lemma example_find_0001:
  "example_find ''versions/simple_prompt'' ''0001'' example_files
     = Inr (Some ''versions/simple_prompt/0001_simple_prompt.py'')"
  by (simp add: example_find_def example_paths example_files_lookup)

lemma example_pointer_update:
  "update_version_text_file_spec ''='' ''versions/simple_prompt/version.txt''
      [(CURRENT_REVISION_KEY, ''0001'')] (example_files(''prompts/simple_prompt.py'' \<mapsto> x))
   = Inr (example_files(''prompts/simple_prompt.py'' \<mapsto> x,
        ''versions/simple_prompt/version.txt'' \<mapsto>
           ''current_revision=0001'' @ [newline] @ ''latest_revision=0002'' @ [newline]))"
  by (simp add: update_version_text_file_spec_def example_files_lookup CURRENT_REVISION_KEY_def
        set_field_def join_lines_def newline_def)

lemma example_use_0001:
  "use_command (example_utils None) ''simple_prompt'' ''0001'' (Some '''') example_world =
    (Inr None,
     example_world\<lparr>files := example_files(''prompts/simple_prompt.py'' \<mapsto>
                        ''# used'' @ [newline] @ ''Recommend a book.'',
                      ''versions/simple_prompt/version.txt'' \<mapsto>
                        ''current_revision=0001'' @ [newline] @ ''latest_revision=0002'' @ [newline]),
       stdout := [''Using versions/simple_prompt/0001_simple_prompt.py''],
       trace := [OpenRead ''versions/simple_prompt/0001_simple_prompt.py'',
                 OpenWrite ''prompts/simple_prompt.py'',
                 FileWrite ''prompts/simple_prompt.py'' (''# used'' @ [newline] @ ''Recommend a book.''),
                 RunFormat ''prompts/simple_prompt.py'',
                 UpdateVersionFile ''versions/simple_prompt/version.txt''
                   [(CURRENT_REVISION_KEY, ''0001'')]]\<rparr>)"
proof -
  have r: "resolved_version ''0001'' (Some '''') = ''0001''"
    by (simp add: resolved_version_def)
  have c: "files example_world ''versions/simple_prompt/0001_simple_prompt.py'' = Some ''Recommend a book.''"
    by (simp add: example_helpers example_files_lookup)
  have rd: "write_prompt_to_template (example_utils None) ''Recommend a book.'' USE
      = Inr (''# used'' @ [newline] @ ''Recommend a book.'')"
    by (simp add: example_helpers example_render_def)
  have f: "run_format_command (example_utils None)
       (path_join (prompts_location example_settings) (''simple_prompt'' @ ''.py''))
       ((files example_world)(path_join (prompts_location example_settings) (''simple_prompt'' @ ''.py'')
           \<mapsto> ''# used'' @ [newline] @ ''Recommend a book.''))
      = Inr (example_files(''prompts/simple_prompt.py'' \<mapsto> ''# used'' @ [newline] @ ''Recommend a book.''))"
    by (simp add: example_helpers example_paths)
  have u: "update_version_text_file (example_utils None) ''versions/simple_prompt/version.txt''
       [(CURRENT_REVISION_KEY, ''0001'')]
       (example_files(''prompts/simple_prompt.py'' \<mapsto> ''# used'' @ [newline] @ ''Recommend a book.''))
     = Inr (example_files(''prompts/simple_prompt.py'' \<mapsto>
                        ''# used'' @ [newline] @ ''Recommend a book.'',
                      ''versions/simple_prompt/version.txt'' \<mapsto>
                        ''current_revision=0001'' @ [newline] @ ''latest_revision=0002'' @ [newline]))"
    by (simp only: example_helpers example_pointer_update)
  have "use_command (example_utils None) ''simple_prompt'' ''0001'' (Some '''') example_world =
     use_checkout (example_utils None) example_settings ''simple_prompt'' ''0001''
       ''versions/simple_prompt/0001_simple_prompt.py'' ''versions/simple_prompt/version.txt''
       example_world"
    by (simp add: use_command_no_drift [of _ _ example_settings _ None] example_helpers r
          example_paths example_find_0001)
  also have "\<dots> = (Inr None,
     example_world\<lparr>files := example_files(''prompts/simple_prompt.py'' \<mapsto>
                        ''# used'' @ [newline] @ ''Recommend a book.'',
                      ''versions/simple_prompt/version.txt'' \<mapsto>
                        ''current_revision=0001'' @ [newline] @ ''latest_revision=0002'' @ [newline]),
       stdout := [''Using versions/simple_prompt/0001_simple_prompt.py''],
       trace := [OpenRead ''versions/simple_prompt/0001_simple_prompt.py'',
                 OpenWrite ''prompts/simple_prompt.py'',
                 FileWrite ''prompts/simple_prompt.py'' (''# used'' @ [newline] @ ''Recommend a book.''),
                 RunFormat ''prompts/simple_prompt.py'',
                 UpdateVersionFile ''versions/simple_prompt/version.txt''
                   [(CURRENT_REVISION_KEY, ''0001'')]]\<rparr>)"
    using use_checkout_done [OF c rd f u] by (simp add: example_helpers example_paths)
  finally show ?thesis .
qed

lemma example_use_key:
  assumes r: "resolved_version a v = ''0001''"
  shows "use_command (example_utils None) ''simple_prompt'' a v example_world =
    (Inr None, example_after_use)"
proof -
  have "use_command (example_utils None) ''simple_prompt'' a v example_world =
     use_checkout (example_utils None) example_settings ''simple_prompt'' ''0001''
       ''versions/simple_prompt/0001_simple_prompt.py'' ''versions/simple_prompt/version.txt''
       example_world"
    by (simp add: use_command_no_drift [of _ _ example_settings _ None] example_helpers r
          example_paths example_find_0001)
  also have "\<dots> = use_command (example_utils None) ''simple_prompt'' ''0001'' (Some '''') example_world"
    by (simp add: use_command_no_drift [of _ _ example_settings _ None] example_helpers
          resolved_version_def example_paths example_find_0001)
  also have "\<dots> = (Inr None, example_after_use)"
    using example_use_0001 by (simp add: example_after_use_def example_world_def)
  finally show ?thesis .
qed

lemma example_find_0003:
  "example_find ''versions/simple_prompt'' ''0003'' example_files = Inr None"
  by (simp add: example_find_def example_paths example_files_lookup)

lemma replicate_4: "replicate 4 x = [x, x, x, x]"
  by (simp add: numeral_eq_Suc)

lemma example_drift_lines:
  "expandtabs 4 ([CHR 0x09] @ ''mirascope add '' @ ''simple_prompt'') = ''    mirascope add simple_prompt''"
  by (simp add: expandtabs_def replicate_4)

section \<open>Guarantees of the use command\<close>

text \<open>
  C4. When the status checker reports no drift and the snapshot lookup finds no file
  for the requested revision or alias, Use raises \<^verbatim>\<open>FileNotFoundError\<close> and the
  world is as it was: no file is written, nothing is printed, nothing is logged.
\<close>

theorem use_command_not_found_no_state_change:
  assumes "get_user_mirascope_settings U (files w) = Inr s"
    and "check_status U s n (files w) = Inr st"
    and "\<not> truthy st"
    and "find_prompt_path U (path_join (versions_location s) n) (resolved_version a v) (files w)
           = Inr None"
  shows "use_command U n a v w =
    (Inl (FileNotFoundError (''Prompt version '' @ resolved_version a v @ '' not found in ''
          @ path_join (versions_location s) n)), w)"
  using use_command_no_drift [OF assms(1-3), of a v] assms(4) by simp

theorem use_command_not_found_no_state_change_witness:
  "get_user_mirascope_settings (example_utils None) (files example_world) = Inr example_settings
   \<and> check_status (example_utils None) example_settings ''simple_prompt'' (files example_world)
       = Inr None
   \<and> \<not> truthy None
   \<and> find_prompt_path (example_utils None) (path_join (versions_location example_settings)
         ''simple_prompt'') (resolved_version ''0003'' None) (files example_world) = Inr None
   \<and> use_command (example_utils None) ''simple_prompt'' ''0003'' None example_world =
       (Inl (FileNotFoundError ''Prompt version 0003 not found in versions/simple_prompt''),
        example_world)"
proof -
  have h1: "get_user_mirascope_settings (example_utils None) (files example_world)
      = Inr example_settings"
    by (simp add: example_helpers)
  have h2: "check_status (example_utils None) example_settings ''simple_prompt''
      (files example_world) = Inr None"
    by (simp add: example_helpers)
  have h3: "\<not> truthy None" by simp
  have h4: "find_prompt_path (example_utils None) (path_join (versions_location example_settings)
         ''simple_prompt'') (resolved_version ''0003'' None) (files example_world) = Inr None"
    by (simp add: example_helpers example_paths resolved_version_def example_find_0003)
  have k: "''Prompt version '' @ resolved_version ''0003'' None @ '' not found in ''
          @ path_join (versions_location example_settings) ''simple_prompt''
        = ''Prompt version 0003 not found in versions/simple_prompt''"
    by (simp add: example_helpers example_paths resolved_version_def)
  have h5: "use_command (example_utils None) ''simple_prompt'' ''0003'' None example_world =
       (Inl (FileNotFoundError ''Prompt version 0003 not found in versions/simple_prompt''),
        example_world)"
    using use_command_not_found_no_state_change [OF h1 h2 h3 h4] by (simp only: k)
  show ?thesis
    by (intro conjI) (rule h1 h2 h3 h4 h5)+
qed

lemma example_drift:
  "use_command (example_utils (Some ''prompts/simple_prompt.py'')) ''simple_prompt'' a v
     example_world =
   (Inr None, example_world\<lparr>stdout :=
       [''Changes detected, please add or remove changes first.'',
        ''    mirascope add simple_prompt'']\<rparr>)"
proof -
  have h1: "get_user_mirascope_settings (example_utils (Some ''prompts/simple_prompt.py''))
      (files example_world) = Inr example_settings"
    by (simp add: example_helpers)
  have h2: "check_status (example_utils (Some ''prompts/simple_prompt.py'')) example_settings
      ''simple_prompt'' (files example_world) = Inr (Some ''prompts/simple_prompt.py'')"
    by (simp add: example_helpers)
  have h3: "truthy (Some ''prompts/simple_prompt.py'')" by simp
  show ?thesis
    using use_command_drift [OF h1 h2 h3, of a v]
    by (simp only: example_drift_lines example_helpers append_Nil)
qed

text \<open>
  C1. When the status checker returns a path (drift), Use returns normally after
  printing that changes were detected and the suggestion to run
  \<^verbatim>\<open>mirascope add\<close> with the prompt's name, and changes nothing: the files are as
  they were and no file operation is logged (no snapshot is read, the working prompt
  file and the pointer file are not written). The suggestion names the prompt, not the
  path the status checker returned.
\<close>

theorem use_command_drift_aborts:
  assumes "get_user_mirascope_settings U (files w) = Inr s"
    and "check_status U s n (files w) = Inr (Some p)"
    and "p \<noteq> []"
  shows "fst (use_command U n a v w) = Inr None
    \<and> stdout (snd (use_command U n a v w)) = stdout w @
         [''Changes detected, please add or remove changes first.'',
          expandtabs 4 ([CHR 0x09] @ ''mirascope add '' @ n)]
    \<and> files (snd (use_command U n a v w)) = files w
    \<and> trace (snd (use_command U n a v w)) = trace w"
proof -
  from assms(3) have "truthy (Some p)" by simp
  from use_command_drift [OF assms(1,2) this, of a v] show ?thesis by simp
qed

theorem use_command_drift_aborts_witness:
  "get_user_mirascope_settings (example_utils (Some ''prompts/simple_prompt.py''))
      (files example_world) = Inr example_settings
   \<and> check_status (example_utils (Some ''prompts/simple_prompt.py'')) example_settings
      ''simple_prompt'' (files example_world) = Inr (Some ''prompts/simple_prompt.py'')
   \<and> ''prompts/simple_prompt.py'' \<noteq> []
   \<and> fst (use_command (example_utils (Some ''prompts/simple_prompt.py'')) ''simple_prompt''
         ''0001'' None example_world) = Inr None
   \<and> stdout (snd (use_command (example_utils (Some ''prompts/simple_prompt.py''))
         ''simple_prompt'' ''0001'' None example_world)) =
         [''Changes detected, please add or remove changes first.'',
          ''    mirascope add simple_prompt'']
   \<and> files (snd (use_command (example_utils (Some ''prompts/simple_prompt.py''))
         ''simple_prompt'' ''0001'' None example_world)) = example_files
   \<and> trace (snd (use_command (example_utils (Some ''prompts/simple_prompt.py''))
         ''simple_prompt'' ''0001'' None example_world)) = []"
proof -
  have h1: "get_user_mirascope_settings (example_utils (Some ''prompts/simple_prompt.py''))
      (files example_world) = Inr example_settings"
    by (simp add: example_helpers)
  have h2: "check_status (example_utils (Some ''prompts/simple_prompt.py'')) example_settings
      ''simple_prompt'' (files example_world) = Inr (Some ''prompts/simple_prompt.py'')"
    by (simp add: example_helpers)
  have h3: "''prompts/simple_prompt.py'' \<noteq> []" by simp
  from use_command_drift_aborts [OF h1 h2 h3, of "''0001''" None]
  have "fst (use_command (example_utils (Some ''prompts/simple_prompt.py'')) ''simple_prompt''
         ''0001'' None example_world) = Inr None
   \<and> stdout (snd (use_command (example_utils (Some ''prompts/simple_prompt.py''))
         ''simple_prompt'' ''0001'' None example_world)) =
         [''Changes detected, please add or remove changes first.'',
          ''    mirascope add simple_prompt'']
   \<and> files (snd (use_command (example_utils (Some ''prompts/simple_prompt.py''))
         ''simple_prompt'' ''0001'' None example_world)) = example_files
   \<and> trace (snd (use_command (example_utils (Some ''prompts/simple_prompt.py''))
         ''simple_prompt'' ''0001'' None example_world)) = []"
    by (simp only: example_drift_lines example_helpers append_Nil)
  with h1 h2 h3 show ?thesis by blast
qed

theorem use_command_drift_path_not_printed:
  "check_status (example_utils (Some ''prompts/simple_prompt.py'')) example_settings
      ''simple_prompt'' (files example_world) = Inr (Some ''prompts/simple_prompt.py'')
   \<and> stdout (snd (use_command (example_utils (Some ''prompts/simple_prompt.py''))
         ''simple_prompt'' ''0001'' None example_world)) =
         [''Changes detected, please add or remove changes first.'',
          ''    mirascope add simple_prompt'']
   \<and> \<not> sublist ''prompts/simple_prompt.py''
          ''Changes detected, please add or remove changes first.''
   \<and> \<not> sublist ''prompts/simple_prompt.py'' ''    mirascope add simple_prompt''"
proof -
  have a: "\<not> sublist ''prompts/simple_prompt.py''
          ''Changes detected, please add or remove changes first.''"
    by (simp add: sublist_Cons_right)
  have b: "\<not> sublist ''prompts/simple_prompt.py'' ''    mirascope add simple_prompt''"
    by (simp add: sublist_Cons_right)
  have c: "check_status (example_utils (Some ''prompts/simple_prompt.py'')) example_settings
      ''simple_prompt'' (files example_world) = Inr (Some ''prompts/simple_prompt.py'')"
    by (simp add: example_helpers)
  have d: "stdout (snd (use_command (example_utils (Some ''prompts/simple_prompt.py''))
         ''simple_prompt'' ''0001'' None example_world)) =
         [''Changes detected, please add or remove changes first.'',
          ''    mirascope add simple_prompt'']"
    by (simp add: example_drift)
  from a b c d show ?thesis by blast
qed

text \<open>
  C9. A successful Use prints \<^verbatim>\<open>Using\<close> and the path of the snapshot the lookup
  found as its last line, and returns \<^verbatim>\<open>None\<close>: the path is printed, not returned.
\<close>

theorem use_command_prints_used_path:
  assumes "get_user_mirascope_settings U (files w) = Inr s"
    and "check_status U s n (files w) = Inr st"
    and "\<not> truthy st"
    and "use_command U n a v w = (Inr r, w')"
  shows "r = None \<and>
    (\<exists>rp. find_prompt_path U (path_join (versions_location s) n) (resolved_version a v)
            (files w) = Inr (Some rp)
          \<and> stdout w' = stdout w @ [''Using '' @ rp])"
  using use_command_returns [OF assms] by blast

theorem use_command_prints_used_path_witness:
  "get_user_mirascope_settings (example_utils None) (files example_world) = Inr example_settings
   \<and> check_status (example_utils None) example_settings ''simple_prompt'' (files example_world)
       = Inr None
   \<and> \<not> truthy None
   \<and> use_command (example_utils None) ''simple_prompt'' ''0001'' None example_world
       = (Inr None, example_after_use)
   \<and> (\<exists>rp. find_prompt_path (example_utils None)
            (path_join (versions_location example_settings) ''simple_prompt'')
            (resolved_version ''0001'' None) (files example_world) = Inr (Some rp)
          \<and> stdout example_after_use = stdout example_world @ [''Using '' @ rp])
   \<and> stdout example_after_use = [''Using versions/simple_prompt/0001_simple_prompt.py'']"
proof -
  have h1: "get_user_mirascope_settings (example_utils None) (files example_world)
      = Inr example_settings"
    by (simp add: example_helpers)
  have h2: "check_status (example_utils None) example_settings ''simple_prompt''
      (files example_world) = Inr None"
    by (simp add: example_helpers)
  have h3: "\<not> truthy None" by simp
  have h4: "use_command (example_utils None) ''simple_prompt'' ''0001'' None example_world
       = (Inr None, example_after_use)"
    by (rule example_use_key) (simp add: resolved_version_def)
  have h5: "stdout example_after_use = [''Using versions/simple_prompt/0001_simple_prompt.py'']"
    by (simp add: example_after_use_def)
  from use_command_prints_used_path [OF h1 h2 h3 h4] h1 h2 h3 h4 h5
  show ?thesis by blast
qed

theorem use_command_returns_none:
  "fst (use_command (example_utils None) ''simple_prompt'' ''0001'' None example_world) = Inr None
   \<and> stdout (snd (use_command (example_utils None) ''simple_prompt'' ''0001'' None example_world))
       = [''Using versions/simple_prompt/0001_simple_prompt.py'']"
proof -
  have "use_command (example_utils None) ''simple_prompt'' ''0001'' None example_world
       = (Inr None, example_after_use)"
    by (rule example_use_key) (simp add: resolved_version_def)
  then show ?thesis by (simp add: example_after_use_def)
qed

lemma example_failing_render_helpers:
  "get_user_mirascope_settings example_utils_failing_render fs = Inr example_settings"
  "check_status example_utils_failing_render s n fs = Inr None"
  "find_prompt_path example_utils_failing_render = example_find"
  "write_prompt_to_template example_utils_failing_render content command
     = Inl (Exception ''metadata could not be parsed'')"
  by (simp_all add: example_utils_failing_render_def example_utils_def)

lemma example_failing_format_helpers:
  "get_user_mirascope_settings example_utils_failing_format fs = Inr example_settings"
  "check_status example_utils_failing_format s n fs = Inr None"
  "find_prompt_path example_utils_failing_format = example_find"
  "write_prompt_to_template example_utils_failing_format = example_render"
  "run_format_command example_utils_failing_format p fs = Inl (Exception ''formatter failed'')"
  by (simp_all add: example_utils_failing_format_def example_utils_def)

text \<open>
  C3. Use looks its target up under one key (lines 97 and 98): the first argument,
  \<^verbatim>\<open>alias\<close>, when the version argument is empty or absent, and the version argument
  otherwise, in which case \<^verbatim>\<open>alias\<close> plays no part. The target is the path the
  snapshot lookup returns for the prompt's version directory and that key, and it is the
  file the command reads.
\<close>

theorem use_command_lookup_key:
  assumes "get_user_mirascope_settings U (files w) = Inr s"
    and "check_status U s n (files w) = Inr st"
    and "\<not> truthy st"
    and "find_prompt_path U (path_join (versions_location s) n) (resolved_version a v) (files w)
           = Inr (Some rp)"
    and "files w rp = Some content"
  shows "use_command U n a v w = use_command U n (resolved_version a v) None w
    \<and> (v = None \<or> v = Some [] \<longrightarrow> resolved_version a v = a)
    \<and> (\<forall>x. v = Some x \<and> x \<noteq> [] \<longrightarrow> resolved_version a v = x)
    \<and> (\<exists>evs. trace (snd (use_command U n a v w)) = trace w @ OpenRead rp # evs)"
proof -
  have "\<exists>evs. trace (snd (use_command U n a v w)) = trace w @ OpenRead rp # evs"
    using use_command_no_drift [OF assms(1-3), of a v] assms(4)
      use_checkout_trace_read [OF assms(5)]
    by simp
  moreover have "v = None \<or> v = Some [] \<longrightarrow> resolved_version a v = a"
    by (auto simp: resolved_version_def)
  moreover have "\<forall>x. v = Some x \<and> x \<noteq> [] \<longrightarrow> resolved_version a v = x"
    by (simp add: resolved_version_def)
  ultimately show ?thesis
    using use_command_key_only [of U n a v w] by blast
qed

theorem use_command_lookup_key_witness:
  "get_user_mirascope_settings (example_utils None) (files example_world) = Inr example_settings
   \<and> check_status (example_utils None) example_settings ''simple_prompt'' (files example_world)
       = Inr None
   \<and> \<not> truthy None
   \<and> find_prompt_path (example_utils None)
        (path_join (versions_location example_settings) ''simple_prompt'')
        (resolved_version ''beta'' (Some ''0001'')) (files example_world)
       = Inr (Some ''versions/simple_prompt/0001_simple_prompt.py'')
   \<and> files example_world ''versions/simple_prompt/0001_simple_prompt.py''
       = Some ''Recommend a book.''
   \<and> use_command (example_utils None) ''simple_prompt'' ''beta'' (Some ''0001'') example_world
       = use_command (example_utils None) ''simple_prompt''
           (resolved_version ''beta'' (Some ''0001'')) None example_world
   \<and> resolved_version ''beta'' (Some ''0001'') = ''0001''
   \<and> (\<exists>evs. trace (snd (use_command (example_utils None) ''simple_prompt'' ''beta''
                   (Some ''0001'') example_world))
          = trace example_world @ OpenRead ''versions/simple_prompt/0001_simple_prompt.py'' # evs)"
proof -
  have h1: "get_user_mirascope_settings (example_utils None) (files example_world)
      = Inr example_settings"
    by (simp add: example_helpers)
  have h2: "check_status (example_utils None) example_settings ''simple_prompt''
      (files example_world) = Inr None"
    by (simp add: example_helpers)
  have h3: "\<not> truthy None" by simp
  have h4: "find_prompt_path (example_utils None)
        (path_join (versions_location example_settings) ''simple_prompt'')
        (resolved_version ''beta'' (Some ''0001'')) (files example_world)
       = Inr (Some ''versions/simple_prompt/0001_simple_prompt.py'')"
    by (simp add: example_helpers example_paths resolved_version_def example_find_0001)
  have h5: "files example_world ''versions/simple_prompt/0001_simple_prompt.py''
       = Some ''Recommend a book.''"
    by (simp add: example_helpers example_files_lookup)
  have h6: "resolved_version ''beta'' (Some ''0001'') = ''0001''"
    by (simp add: resolved_version_def)
  from use_command_lookup_key [OF h1 h2 h3 h4 h5] h1 h2 h3 h4 h5 h6
  show ?thesis by blast
qed

theorem use_command_alias_not_matched:
  "use_command (example_utils None) ''simple_prompt'' ''beta'' (Some ''0001'') example_world
     = (Inr None, example_after_use)
   \<and> stdout example_after_use = [''Using versions/simple_prompt/0001_simple_prompt.py'']
   \<and> example_files ''versions/simple_prompt/0001_simple_prompt.py'' = Some ''Recommend a book.''
   \<and> \<not> sublist ''beta'' ''Recommend a book.''"
proof -
  have a: "use_command (example_utils None) ''simple_prompt'' ''beta'' (Some ''0001'')
      example_world = (Inr None, example_after_use)"
    by (rule example_use_key) (simp add: resolved_version_def)
  have b: "stdout example_after_use = [''Using versions/simple_prompt/0001_simple_prompt.py'']"
    by (simp add: example_after_use_def)
  have c: "\<not> sublist ''beta'' ''Recommend a book.''"
    by (simp add: sublist_Cons_right)
  from a b c example_files_lookup(1) show ?thesis by blast
qed

text \<open>
  C6. A successful Use reads the snapshot the lookup found, renders its text through the
  template renderer with the command \<open>USE\<close>, and writes the result over the working
  prompt file; the formatter and then the pointer-file update run on the files so
  written, and leave the final files.
\<close>

theorem use_command_overwrites_working_prompt:
  assumes "get_user_mirascope_settings U (files w) = Inr s"
    and "check_status U s n (files w) = Inr st"
    and "\<not> truthy st"
    and "use_command U n a v w = (Inr r, w')"
    and "p = path_join (prompts_location s) (n @ ''.py'')"
  shows "\<exists>rp content rendered fs1.
      find_prompt_path U (path_join (versions_location s) n) (resolved_version a v) (files w)
        = Inr (Some rp)
    \<and> files w rp = Some content
    \<and> write_prompt_to_template U content USE = Inr rendered
    \<and> FileWrite p rendered \<in> set (trace w')
    \<and> run_format_command U p ((files w)(p \<mapsto> rendered)) = Inr fs1
    \<and> update_version_text_file U
         (path_join (path_join (versions_location s) n) (version_file_name s))
         [(CURRENT_REVISION_KEY, resolved_version a v)] fs1 = Inr (files w')"
proof -
  from use_command_returns [OF assms(1-4)] obtain rp content rendered fs1 where
    "find_prompt_path U (path_join (versions_location s) n) (resolved_version a v) (files w)
        = Inr (Some rp)"
    "files w rp = Some content"
    "write_prompt_to_template U content USE = Inr rendered"
    "run_format_command U (path_join (prompts_location s) (n @ ''.py''))
       ((files w)(path_join (prompts_location s) (n @ ''.py'') \<mapsto> rendered)) = Inr fs1"
    "update_version_text_file U
       (path_join (path_join (versions_location s) n) (version_file_name s))
       [(CURRENT_REVISION_KEY, resolved_version a v)] fs1 = Inr (files w')"
    "trace w' = trace w @ [OpenRead rp, OpenWrite (path_join (prompts_location s) (n @ ''.py'')),
                 FileWrite (path_join (prompts_location s) (n @ ''.py'')) rendered,
                 RunFormat (path_join (prompts_location s) (n @ ''.py'')),
                 UpdateVersionFile
                   (path_join (path_join (versions_location s) n) (version_file_name s))
                   [(CURRENT_REVISION_KEY, resolved_version a v)]]"
    by blast
  moreover from this(6) have "FileWrite p rendered \<in> set (trace w')"
    by (simp add: assms(5))
  ultimately show ?thesis
    unfolding assms(5) by blast
qed

theorem use_command_overwrites_working_prompt_witness:
  "get_user_mirascope_settings (example_utils None) (files example_world) = Inr example_settings
   \<and> check_status (example_utils None) example_settings ''simple_prompt'' (files example_world)
       = Inr None
   \<and> \<not> truthy None
   \<and> use_command (example_utils None) ''simple_prompt'' ''0001'' None example_world
       = (Inr None, example_after_use)
   \<and> ''prompts/simple_prompt.py'' = path_join (prompts_location example_settings)
         (''simple_prompt'' @ ''.py'')
   \<and> (\<exists>rp content rendered fs1.
         find_prompt_path (example_utils None)
           (path_join (versions_location example_settings) ''simple_prompt'')
           (resolved_version ''0001'' None) (files example_world) = Inr (Some rp)
       \<and> files example_world rp = Some content
       \<and> write_prompt_to_template (example_utils None) content USE = Inr rendered
       \<and> FileWrite ''prompts/simple_prompt.py'' rendered \<in> set (trace example_after_use)
       \<and> run_format_command (example_utils None) ''prompts/simple_prompt.py''
            ((files example_world)(''prompts/simple_prompt.py'' \<mapsto> rendered)) = Inr fs1
       \<and> update_version_text_file (example_utils None)
            (path_join (path_join (versions_location example_settings) ''simple_prompt'')
               (version_file_name example_settings))
            [(CURRENT_REVISION_KEY, resolved_version ''0001'' None)] fs1
           = Inr (files example_after_use))
   \<and> files example_world ''versions/simple_prompt/0001_simple_prompt.py''
       = Some ''Recommend a book.''
   \<and> write_prompt_to_template (example_utils None) ''Recommend a book.'' USE
       = Inr (''# used'' @ [newline] @ ''Recommend a book.'')
   \<and> files example_after_use ''prompts/simple_prompt.py''
       = Some (''# used'' @ [newline] @ ''Recommend a book.'')"
proof -
  have h1: "get_user_mirascope_settings (example_utils None) (files example_world)
      = Inr example_settings"
    by (simp add: example_helpers)
  have h2: "check_status (example_utils None) example_settings ''simple_prompt''
      (files example_world) = Inr None"
    by (simp add: example_helpers)
  have h3: "\<not> truthy None" by simp
  have h4: "use_command (example_utils None) ''simple_prompt'' ''0001'' None example_world
       = (Inr None, example_after_use)"
    by (rule example_use_key) (simp add: resolved_version_def)
  have h5: "''prompts/simple_prompt.py'' = path_join (prompts_location example_settings)
         (''simple_prompt'' @ ''.py'')"
    by (simp add: example_helpers example_paths)
  have h6: "files example_world ''versions/simple_prompt/0001_simple_prompt.py''
       = Some ''Recommend a book.''"
    by (simp add: example_helpers example_files_lookup)
  have h7: "write_prompt_to_template (example_utils None) ''Recommend a book.'' USE
       = Inr (''# used'' @ [newline] @ ''Recommend a book.'')"
    by (simp add: example_helpers example_render_def)
  have h8: "files example_after_use ''prompts/simple_prompt.py''
       = Some (''# used'' @ [newline] @ ''Recommend a book.'')"
    by (simp add: example_after_use_def)
  from use_command_overwrites_working_prompt [OF h1 h2 h3 h4 h5] h1 h2 h3 h4 h5 h6 h7 h8
  show ?thesis by blast
qed

text \<open>
  C5. On Use, with the settings resolved: drift is not raised, the command prints the
  guidance and returns normally; an exception of the status checker reaches the caller
  as it is; a revision or alias the lookup does not find is raised as
  \<^verbatim>\<open>FileNotFoundError\<close>; an exception of the template renderer reaches the caller as
  it is. Nothing is retried: the helper that raised is the last one called, the helpers
  a run calls are an initial part of the six in their order, so that none is called
  twice, and a run logs at most five file operations, no two of them the same.
\<close>

theorem use_command_error_propagation:
  assumes "get_user_mirascope_settings U (files w) = Inr s"
  shows "fst (use_command_logged U n a v w) = use_command U n a v w
    \<and> (\<forall>p. check_status U s n (files w) = Inr (Some p) \<and> p \<noteq> []
            \<longrightarrow> fst (use_command U n a v w) = Inr None
              \<and> stdout (snd (use_command U n a v w)) = stdout w @
                   [''Changes detected, please add or remove changes first.'',
                    expandtabs 4 ([CHR 0x09] @ ''mirascope add '' @ n)]
              \<and> snd (use_command_logged U n a v w) = [GetUserMirascopeSettings, CheckStatus])
    \<and> (\<forall>e. check_status U s n (files w) = Inl e
            \<longrightarrow> fst (use_command U n a v w) = Inl e
              \<and> snd (use_command_logged U n a v w) = [GetUserMirascopeSettings, CheckStatus])
    \<and> (\<forall>st. check_status U s n (files w) = Inr st \<and> \<not> truthy st
            \<and> find_prompt_path U (path_join (versions_location s) n) (resolved_version a v)
                 (files w) = Inr None
            \<longrightarrow> fst (use_command U n a v w) =
                  Inl (FileNotFoundError (''Prompt version '' @ resolved_version a v
                         @ '' not found in '' @ path_join (versions_location s) n))
              \<and> snd (use_command_logged U n a v w)
                  = [GetUserMirascopeSettings, CheckStatus, FindPromptPath])
    \<and> (\<forall>st rp content e. check_status U s n (files w) = Inr st \<and> \<not> truthy st
            \<and> find_prompt_path U (path_join (versions_location s) n) (resolved_version a v)
                 (files w) = Inr (Some rp)
            \<and> files w rp = Some content
            \<and> write_prompt_to_template U content USE = Inl e
            \<longrightarrow> fst (use_command U n a v w) = Inl e
              \<and> snd (use_command_logged U n a v w)
                  = [GetUserMirascopeSettings, CheckStatus, FindPromptPath,
                     WritePromptToTemplate])
    \<and> prefix (snd (use_command_logged U n a v w))
         [GetUserMirascopeSettings, CheckStatus, FindPromptPath,
          WritePromptToTemplate, RunFormatCommand, UpdateVersionTextFile]
    \<and> distinct (snd (use_command_logged U n a v w))
    \<and> (\<exists>evs. trace (snd (use_command U n a v w)) = trace w @ evs
            \<and> distinct evs \<and> length evs \<le> 5)"
proof -
  have 0: "fst (use_command_logged U n a v w) = use_command U n a v w"
    by (rule use_command_logged_outcome)
  have 1: "\<forall>p. check_status U s n (files w) = Inr (Some p) \<and> p \<noteq> []
            \<longrightarrow> fst (use_command U n a v w) = Inr None
              \<and> stdout (snd (use_command U n a v w)) = stdout w @
                   [''Changes detected, please add or remove changes first.'',
                    expandtabs 4 ([CHR 0x09] @ ''mirascope add '' @ n)]
              \<and> snd (use_command_logged U n a v w) = [GetUserMirascopeSettings, CheckStatus]"
  proof (intro allI impI)
    fix p
    assume "check_status U s n (files w) = Inr (Some p) \<and> p \<noteq> []"
    then have c: "check_status U s n (files w) = Inr (Some p)" and t: "truthy (Some p)"
      by simp_all
    from use_command_drift [OF assms c t, of a v] use_command_logged_drift [OF assms c t, of a v]
    show "fst (use_command U n a v w) = Inr None
              \<and> stdout (snd (use_command U n a v w)) = stdout w @
                   [''Changes detected, please add or remove changes first.'',
                    expandtabs 4 ([CHR 0x09] @ ''mirascope add '' @ n)]
              \<and> snd (use_command_logged U n a v w) = [GetUserMirascopeSettings, CheckStatus]"
      by simp
  qed
  have 2: "\<forall>e. check_status U s n (files w) = Inl e
            \<longrightarrow> fst (use_command U n a v w) = Inl e
              \<and> snd (use_command_logged U n a v w) = [GetUserMirascopeSettings, CheckStatus]"
  proof (intro allI impI)
    fix e
    assume c: "check_status U s n (files w) = Inl e"
    from use_command_status_raise [OF assms c, of a v]
      use_command_logged_status_raise [OF assms c, of a v]
    show "fst (use_command U n a v w) = Inl e
              \<and> snd (use_command_logged U n a v w) = [GetUserMirascopeSettings, CheckStatus]"
      by simp
  qed
  have 3: "\<forall>st. check_status U s n (files w) = Inr st \<and> \<not> truthy st
            \<and> find_prompt_path U (path_join (versions_location s) n) (resolved_version a v)
                 (files w) = Inr None
            \<longrightarrow> fst (use_command U n a v w) =
                  Inl (FileNotFoundError (''Prompt version '' @ resolved_version a v
                         @ '' not found in '' @ path_join (versions_location s) n))
              \<and> snd (use_command_logged U n a v w)
                  = [GetUserMirascopeSettings, CheckStatus, FindPromptPath]"
  proof (intro allI impI)
    fix st
    assume h: "check_status U s n (files w) = Inr st \<and> \<not> truthy st
            \<and> find_prompt_path U (path_join (versions_location s) n) (resolved_version a v)
                 (files w) = Inr None"
    then have c: "check_status U s n (files w) = Inr st" and t: "\<not> truthy st" by simp_all
    from use_command_no_drift [OF assms c t, of a v]
      use_command_logged_no_drift [OF assms c t, of a v] h
    show "fst (use_command U n a v w) =
                  Inl (FileNotFoundError (''Prompt version '' @ resolved_version a v
                         @ '' not found in '' @ path_join (versions_location s) n))
              \<and> snd (use_command_logged U n a v w)
                  = [GetUserMirascopeSettings, CheckStatus, FindPromptPath]"
      by simp
  qed
  have 4: "\<forall>st rp content e. check_status U s n (files w) = Inr st \<and> \<not> truthy st
            \<and> find_prompt_path U (path_join (versions_location s) n) (resolved_version a v)
                 (files w) = Inr (Some rp)
            \<and> files w rp = Some content
            \<and> write_prompt_to_template U content USE = Inl e
            \<longrightarrow> fst (use_command U n a v w) = Inl e
              \<and> snd (use_command_logged U n a v w)
                  = [GetUserMirascopeSettings, CheckStatus, FindPromptPath,
                     WritePromptToTemplate]"
  proof (intro allI impI)
    fix st rp content e
    assume h: "check_status U s n (files w) = Inr st \<and> \<not> truthy st
            \<and> find_prompt_path U (path_join (versions_location s) n) (resolved_version a v)
                 (files w) = Inr (Some rp)
            \<and> files w rp = Some content
            \<and> write_prompt_to_template U content USE = Inl e"
    then have c: "check_status U s n (files w) = Inr st" and t: "\<not> truthy st"
      and r: "files w rp = Some content" and x: "write_prompt_to_template U content USE = Inl e"
      by simp_all
    from use_command_no_drift [OF assms c t, of a v] h use_checkout_render_raise [OF r x]
    have a: "fst (use_command U n a v w) = Inl e" by simp
    from use_command_logged_no_drift [OF assms c t, of a v] h
      use_checkout_logged_render_raise [OF r x]
    have "snd (use_command_logged U n a v w)
                  = [GetUserMirascopeSettings, CheckStatus, FindPromptPath,
                     WritePromptToTemplate]"
      by simp
    with a show "fst (use_command U n a v w) = Inl e
              \<and> snd (use_command_logged U n a v w)
                  = [GetUserMirascopeSettings, CheckStatus, FindPromptPath,
                     WritePromptToTemplate]"
      by simp
  qed
  from 0 1 2 3 4 use_command_logged_calls [of U n a v w]
    use_command_logged_distinct [of U n a v w] use_command_trace_once [of U n a v w]
  show ?thesis by blast
qed

theorem use_command_error_propagation_witness:
  "get_user_mirascope_settings (example_utils (Some ''prompts/simple_prompt.py''))
      (files example_world) = Inr example_settings
   \<and> check_status (example_utils (Some ''prompts/simple_prompt.py'')) example_settings
       ''simple_prompt'' (files example_world) = Inr (Some ''prompts/simple_prompt.py'')
   \<and> ''prompts/simple_prompt.py'' \<noteq> []
   \<and> fst (use_command (example_utils (Some ''prompts/simple_prompt.py'')) ''simple_prompt''
         ''0001'' None example_world) = Inr None
   \<and> stdout (snd (use_command (example_utils (Some ''prompts/simple_prompt.py''))
         ''simple_prompt'' ''0001'' None example_world))
       = [''Changes detected, please add or remove changes first.'',
          ''    mirascope add simple_prompt'']
   \<and> snd (use_command_logged (example_utils (Some ''prompts/simple_prompt.py''))
         ''simple_prompt'' ''0001'' None example_world)
       = [GetUserMirascopeSettings, CheckStatus]
   \<and> get_user_mirascope_settings example_utils_failing_render (files example_world)
       = Inr example_settings
   \<and> check_status example_utils_failing_render example_settings ''simple_prompt''
       (files example_world) = Inr None
   \<and> \<not> truthy None
   \<and> find_prompt_path example_utils_failing_render
        (path_join (versions_location example_settings) ''simple_prompt'')
        (resolved_version ''0001'' None) (files example_world)
       = Inr (Some ''versions/simple_prompt/0001_simple_prompt.py'')
   \<and> files example_world ''versions/simple_prompt/0001_simple_prompt.py''
       = Some ''Recommend a book.''
   \<and> write_prompt_to_template example_utils_failing_render ''Recommend a book.'' USE
       = Inl (Exception ''metadata could not be parsed'')
   \<and> fst (use_command example_utils_failing_render ''simple_prompt'' ''0001'' None
         example_world) = Inl (Exception ''metadata could not be parsed'')
   \<and> snd (use_command_logged example_utils_failing_render ''simple_prompt'' ''0001'' None
         example_world)
       = [GetUserMirascopeSettings, CheckStatus, FindPromptPath, WritePromptToTemplate]"
proof -
  have d1: "get_user_mirascope_settings (example_utils (Some ''prompts/simple_prompt.py''))
      (files example_world) = Inr example_settings"
    by (simp add: example_helpers)
  have d2: "check_status (example_utils (Some ''prompts/simple_prompt.py'')) example_settings
       ''simple_prompt'' (files example_world) = Inr (Some ''prompts/simple_prompt.py'')"
    by (simp add: example_helpers)
  have d3: "''prompts/simple_prompt.py'' \<noteq> []" by simp
  from use_command_error_propagation [OF d1, of "''simple_prompt''" "''0001''" None] d2 d3
  have "fst (use_command (example_utils (Some ''prompts/simple_prompt.py'')) ''simple_prompt''
         ''0001'' None example_world) = Inr None
   \<and> stdout (snd (use_command (example_utils (Some ''prompts/simple_prompt.py''))
         ''simple_prompt'' ''0001'' None example_world))
       = stdout example_world @ [''Changes detected, please add or remove changes first.'',
          expandtabs 4 ([CHR 0x09] @ ''mirascope add '' @ ''simple_prompt'')]
   \<and> snd (use_command_logged (example_utils (Some ''prompts/simple_prompt.py''))
         ''simple_prompt'' ''0001'' None example_world)
       = [GetUserMirascopeSettings, CheckStatus]"
    by blast
  then have d4: "fst (use_command (example_utils (Some ''prompts/simple_prompt.py''))
         ''simple_prompt'' ''0001'' None example_world) = Inr None
   \<and> stdout (snd (use_command (example_utils (Some ''prompts/simple_prompt.py''))
         ''simple_prompt'' ''0001'' None example_world))
       = [''Changes detected, please add or remove changes first.'',
          ''    mirascope add simple_prompt'']
   \<and> snd (use_command_logged (example_utils (Some ''prompts/simple_prompt.py''))
         ''simple_prompt'' ''0001'' None example_world)
       = [GetUserMirascopeSettings, CheckStatus]"
    by (simp only: example_drift_lines example_helpers append_Nil)
  have h1: "get_user_mirascope_settings example_utils_failing_render (files example_world)
       = Inr example_settings"
    by (simp add: example_failing_render_helpers)
  have h2: "check_status example_utils_failing_render example_settings ''simple_prompt''
       (files example_world) = Inr None"
    by (simp add: example_failing_render_helpers)
  have h3: "find_prompt_path example_utils_failing_render
        (path_join (versions_location example_settings) ''simple_prompt'')
        (resolved_version ''0001'' None) (files example_world)
       = Inr (Some ''versions/simple_prompt/0001_simple_prompt.py'')"
    by (simp add: example_failing_render_helpers example_helpers example_paths
          resolved_version_def example_find_0001)
  have h4: "files example_world ''versions/simple_prompt/0001_simple_prompt.py''
       = Some ''Recommend a book.''"
    by (simp add: example_helpers example_files_lookup)
  have h5: "write_prompt_to_template example_utils_failing_render ''Recommend a book.'' USE
       = Inl (Exception ''metadata could not be parsed'')"
    by (simp add: example_failing_render_helpers)
  have h6: "\<not> truthy None" by simp
  from use_command_error_propagation [OF h1, of "''simple_prompt''" "''0001''" None]
    h2 h3 h4 h5 h6
  have h7: "fst (use_command example_utils_failing_render ''simple_prompt'' ''0001'' None
         example_world) = Inl (Exception ''metadata could not be parsed'')
   \<and> snd (use_command_logged example_utils_failing_render ''simple_prompt'' ''0001'' None
         example_world)
       = [GetUserMirascopeSettings, CheckStatus, FindPromptPath, WritePromptToTemplate]"
    by blast
  from d1 d2 d3 d4 h1 h2 h3 h4 h5 h6 h7 show ?thesis by blast
qed

theorem use_command_drift_not_raised:
  "check_status (example_utils (Some ''prompts/simple_prompt.py'')) example_settings
      ''simple_prompt'' (files example_world) = Inr (Some ''prompts/simple_prompt.py'')
   \<and> fst (use_command (example_utils (Some ''prompts/simple_prompt.py'')) ''simple_prompt''
         ''0002'' None example_world) = Inr None
   \<and> (\<forall>e. fst (use_command (example_utils (Some ''prompts/simple_prompt.py''))
         ''simple_prompt'' ''0002'' None example_world) \<noteq> Inl e)"
  by (simp add: example_drift example_helpers)

text \<open>
  C10. In Use the write of the working prompt file and the run of the formatter come
  before the update of the pointer file. When the formatter raises, the working prompt
  file already holds the rendered text of the new revision and the pointer file is as
  it was; when the pointer-file update raises, the files are those the formatter left.
  The two writes are not atomic.
\<close>

theorem use_command_writes_in_order:
  assumes "get_user_mirascope_settings U (files w) = Inr s"
    and "check_status U s n (files w) = Inr st"
    and "\<not> truthy st"
    and "find_prompt_path U (path_join (versions_location s) n) (resolved_version a v) (files w)
           = Inr (Some rp)"
    and "files w rp = Some content"
    and "write_prompt_to_template U content USE = Inr rendered"
    and "p = path_join (prompts_location s) (n @ ''.py'')"
    and "vp = path_join (path_join (versions_location s) n) (version_file_name s)"
    and "p \<noteq> vp"
  shows "(\<forall>r w'. use_command U n a v w = (Inr r, w') \<longrightarrow>
            trace w' = trace w @ [OpenRead rp, OpenWrite p, FileWrite p rendered, RunFormat p,
              UpdateVersionFile vp [(CURRENT_REVISION_KEY, resolved_version a v)]])
    \<and> (\<forall>e. run_format_command U p ((files w)(p \<mapsto> rendered)) = Inl e \<longrightarrow>
            fst (use_command U n a v w) = Inl e
          \<and> files (snd (use_command U n a v w)) p = Some rendered
          \<and> files (snd (use_command U n a v w)) vp = files w vp
          \<and> trace (snd (use_command U n a v w))
              = trace w @ [OpenRead rp, OpenWrite p, FileWrite p rendered])
    \<and> (\<forall>e fs1. run_format_command U p ((files w)(p \<mapsto> rendered)) = Inr fs1
            \<and> update_version_text_file U vp
                 [(CURRENT_REVISION_KEY, resolved_version a v)] fs1 = Inl e \<longrightarrow>
            fst (use_command U n a v w) = Inl e
          \<and> files (snd (use_command U n a v w)) = fs1
          \<and> trace (snd (use_command U n a v w))
              = trace w @ [OpenRead rp, OpenWrite p, FileWrite p rendered, RunFormat p])"
proof -
  note nd = use_command_no_drift [OF assms(1-3), of a v]
  have run: "use_command U n a v w = use_checkout U s n (resolved_version a v) rp vp w"
    using nd assms(4) by (simp add: assms(8))
  have 1: "\<forall>r w'. use_command U n a v w = (Inr r, w') \<longrightarrow>
            trace w' = trace w @ [OpenRead rp, OpenWrite p, FileWrite p rendered, RunFormat p,
              UpdateVersionFile vp [(CURRENT_REVISION_KEY, resolved_version a v)]]"
  proof (intro allI impI)
    fix r w'
    assume "use_command U n a v w = (Inr r, w')"
    with run have "use_checkout U s n (resolved_version a v) rp vp w = (Inr r, w')" by simp
    from use_checkout_returns [OF this] assms(5,6)
    show "trace w' = trace w @ [OpenRead rp, OpenWrite p, FileWrite p rendered, RunFormat p,
              UpdateVersionFile vp [(CURRENT_REVISION_KEY, resolved_version a v)]]"
      by (auto simp: assms(7))
  qed
  have 2: "\<forall>e. run_format_command U p ((files w)(p \<mapsto> rendered)) = Inl e \<longrightarrow>
            fst (use_command U n a v w) = Inl e
          \<and> files (snd (use_command U n a v w)) p = Some rendered
          \<and> files (snd (use_command U n a v w)) vp = files w vp
          \<and> trace (snd (use_command U n a v w))
              = trace w @ [OpenRead rp, OpenWrite p, FileWrite p rendered]"
  proof (intro allI impI)
    fix e
    assume "run_format_command U p ((files w)(p \<mapsto> rendered)) = Inl e"
    then have f: "run_format_command U (path_join (prompts_location s) (n @ ''.py''))
           ((files w)(path_join (prompts_location s) (n @ ''.py'') \<mapsto> rendered)) = Inl e"
      by (simp add: assms(7))
    from use_checkout_format_raise [OF assms(5,6) f, of "resolved_version a v" vp] run assms(9)
    show "fst (use_command U n a v w) = Inl e
          \<and> files (snd (use_command U n a v w)) p = Some rendered
          \<and> files (snd (use_command U n a v w)) vp = files w vp
          \<and> trace (snd (use_command U n a v w))
              = trace w @ [OpenRead rp, OpenWrite p, FileWrite p rendered]"
      by (simp add: assms(7))
  qed
  have 3: "\<forall>e fs1. run_format_command U p ((files w)(p \<mapsto> rendered)) = Inr fs1
            \<and> update_version_text_file U vp
                 [(CURRENT_REVISION_KEY, resolved_version a v)] fs1 = Inl e \<longrightarrow>
            fst (use_command U n a v w) = Inl e
          \<and> files (snd (use_command U n a v w)) = fs1
          \<and> trace (snd (use_command U n a v w))
              = trace w @ [OpenRead rp, OpenWrite p, FileWrite p rendered, RunFormat p]"
  proof (intro allI impI)
    fix e fs1
    assume h: "run_format_command U p ((files w)(p \<mapsto> rendered)) = Inr fs1
            \<and> update_version_text_file U vp
                 [(CURRENT_REVISION_KEY, resolved_version a v)] fs1 = Inl e"
    then have f: "run_format_command U (path_join (prompts_location s) (n @ ''.py''))
           ((files w)(path_join (prompts_location s) (n @ ''.py'') \<mapsto> rendered)) = Inr fs1"
      and u: "update_version_text_file U vp
                 [(CURRENT_REVISION_KEY, resolved_version a v)] fs1 = Inl e"
      by (simp_all add: assms(7))
    from use_checkout_update_raise [OF assms(5,6) f u] run
    show "fst (use_command U n a v w) = Inl e
          \<and> files (snd (use_command U n a v w)) = fs1
          \<and> trace (snd (use_command U n a v w))
              = trace w @ [OpenRead rp, OpenWrite p, FileWrite p rendered, RunFormat p]"
      by (simp add: assms(7))
  qed
  from 1 2 3 show ?thesis by blast
qed

theorem use_command_writes_in_order_witness:
  "get_user_mirascope_settings example_utils_failing_format (files example_world)
      = Inr example_settings
   \<and> check_status example_utils_failing_format example_settings ''simple_prompt''
       (files example_world) = Inr None
   \<and> \<not> truthy None
   \<and> find_prompt_path example_utils_failing_format
        (path_join (versions_location example_settings) ''simple_prompt'')
        (resolved_version ''0001'' None) (files example_world)
       = Inr (Some ''versions/simple_prompt/0001_simple_prompt.py'')
   \<and> files example_world ''versions/simple_prompt/0001_simple_prompt.py''
       = Some ''Recommend a book.''
   \<and> write_prompt_to_template example_utils_failing_format ''Recommend a book.'' USE
       = Inr (''# used'' @ [newline] @ ''Recommend a book.'')
   \<and> ''prompts/simple_prompt.py''
       = path_join (prompts_location example_settings) (''simple_prompt'' @ ''.py'')
   \<and> ''versions/simple_prompt/version.txt''
       = path_join (path_join (versions_location example_settings) ''simple_prompt'')
           (version_file_name example_settings)
   \<and> ''prompts/simple_prompt.py'' \<noteq> ''versions/simple_prompt/version.txt''
   \<and> run_format_command example_utils_failing_format ''prompts/simple_prompt.py''
        ((files example_world)(''prompts/simple_prompt.py''
           \<mapsto> ''# used'' @ [newline] @ ''Recommend a book.''))
       = Inl (Exception ''formatter failed'')
   \<and> fst (use_command example_utils_failing_format ''simple_prompt'' ''0001'' None
         example_world) = Inl (Exception ''formatter failed'')
   \<and> files (snd (use_command example_utils_failing_format ''simple_prompt'' ''0001'' None
         example_world)) ''prompts/simple_prompt.py''
       = Some (''# used'' @ [newline] @ ''Recommend a book.'')
   \<and> files (snd (use_command example_utils_failing_format ''simple_prompt'' ''0001'' None
         example_world)) ''versions/simple_prompt/version.txt''
       = Some (''current_revision=0002'' @ [newline] @ ''latest_revision=0002'' @ [newline])"
proof -
  have h1: "get_user_mirascope_settings example_utils_failing_format (files example_world)
      = Inr example_settings"
    by (simp add: example_failing_format_helpers)
  have h2: "check_status example_utils_failing_format example_settings ''simple_prompt''
       (files example_world) = Inr None"
    by (simp add: example_failing_format_helpers)
  have h3: "\<not> truthy None" by simp
  have h4: "find_prompt_path example_utils_failing_format
        (path_join (versions_location example_settings) ''simple_prompt'')
        (resolved_version ''0001'' None) (files example_world)
       = Inr (Some ''versions/simple_prompt/0001_simple_prompt.py'')"
    by (simp add: example_failing_format_helpers example_helpers example_paths
          resolved_version_def example_find_0001)
  have h5: "files example_world ''versions/simple_prompt/0001_simple_prompt.py''
       = Some ''Recommend a book.''"
    by (simp add: example_helpers example_files_lookup)
  have h6: "write_prompt_to_template example_utils_failing_format ''Recommend a book.'' USE
       = Inr (''# used'' @ [newline] @ ''Recommend a book.'')"
    by (simp add: example_failing_format_helpers example_render_def)
  have h7: "''prompts/simple_prompt.py''
       = path_join (prompts_location example_settings) (''simple_prompt'' @ ''.py'')"
    by (simp add: example_helpers example_paths)
  have h8: "''versions/simple_prompt/version.txt''
       = path_join (path_join (versions_location example_settings) ''simple_prompt'')
           (version_file_name example_settings)"
    by (simp add: example_helpers example_paths)
  have h9: "''prompts/simple_prompt.py'' \<noteq> ''versions/simple_prompt/version.txt''"
    by simp
  have h10: "run_format_command example_utils_failing_format ''prompts/simple_prompt.py''
        ((files example_world)(''prompts/simple_prompt.py''
           \<mapsto> ''# used'' @ [newline] @ ''Recommend a book.''))
       = Inl (Exception ''formatter failed'')"
    by (simp add: example_failing_format_helpers)
  have h11: "files example_world ''versions/simple_prompt/version.txt''
       = Some (''current_revision=0002'' @ [newline] @ ''latest_revision=0002'' @ [newline])"
    by (simp add: example_helpers example_files_lookup)
  from use_command_writes_in_order [OF h1 h2 h3 h4 h5 h6 h7 h8 h9] h10
  have "fst (use_command example_utils_failing_format ''simple_prompt'' ''0001'' None
         example_world) = Inl (Exception ''formatter failed'')
   \<and> files (snd (use_command example_utils_failing_format ''simple_prompt'' ''0001'' None
         example_world)) ''prompts/simple_prompt.py''
       = Some (''# used'' @ [newline] @ ''Recommend a book.'')
   \<and> files (snd (use_command example_utils_failing_format ''simple_prompt'' ''0001'' None
         example_world)) ''versions/simple_prompt/version.txt''
       = files example_world ''versions/simple_prompt/version.txt''"
    by blast
  with h1 h2 h3 h4 h5 h6 h7 h8 h9 h10 h11 show ?thesis by (simp only:) blast
qed

lemma example_pointer_fields:
  "version_field ''='' LATEST_REVISION_KEY
     (Some (''current_revision=0002'' @ [newline] @ ''latest_revision=0002'' @ [newline]))
     = Some ''0002''"
  "version_field ''='' CURRENT_REVISION_KEY
     (Some (''current_revision=0002'' @ [newline] @ ''latest_revision=0002'' @ [newline]))
     = Some ''0002''"
  by (simp_all add: version_field_def line_value_def newline_def
        CURRENT_REVISION_KEY_def LATEST_REVISION_KEY_def)

lemma example_alias_helpers:
  "get_user_mirascope_settings example_utils_alias fs = Inr example_settings"
  "check_status example_utils_alias s n fs = Inr None"
  "find_prompt_path example_utils_alias directory ''beta'' fs
     = Inr (Some ''versions/simple_prompt/0002_simple_prompt.py'')"
  "write_prompt_to_template example_utils_alias = example_render"
  "run_format_command example_utils_alias p fs = Inr fs"
  "update_version_text_file example_utils_alias = update_version_text_file_spec ''=''"
  by (simp_all add: example_utils_alias_def example_utils_def)

lemma example_files_0002:
  "example_files ''versions/simple_prompt/0002_simple_prompt.py''
     = Some ''Recommend a fantasy book.''"
  by (simp add: example_files_def)

lemma example_alias_run:
  "fst (use_command example_utils_alias ''simple_prompt'' ''beta'' None example_world) = Inr None"
  "stdout (snd (use_command example_utils_alias ''simple_prompt'' ''beta'' None example_world))
     = [''Using versions/simple_prompt/0002_simple_prompt.py'']"
  "version_field ''='' CURRENT_REVISION_KEY
     (files (snd (use_command example_utils_alias ''simple_prompt'' ''beta'' None example_world))
        ''versions/simple_prompt/version.txt'') = Some ''beta''"
proof -
  obtain fs2 where u: "update_version_text_file_spec ''='' ''versions/simple_prompt/version.txt''
      [(CURRENT_REVISION_KEY, ''beta'')]
      (example_files(''prompts/simple_prompt.py'' \<mapsto>
          ''# used'' @ [newline] @ ''Recommend a fantasy book.'')) = Inr fs2"
    by (simp add: update_version_text_file_spec_def)
  have clean: "newline \<notin> set (CURRENT_REVISION_KEY @ ''='' @ ''beta'')"
    by (simp add: CURRENT_REVISION_KEY_def newline_def)
  have field: "version_field ''='' CURRENT_REVISION_KEY (fs2 ''versions/simple_prompt/version.txt'')
      = Some ''beta''"
    using version_field_updated [OF u clean] by simp
  have c: "files example_world ''versions/simple_prompt/0002_simple_prompt.py''
      = Some ''Recommend a fantasy book.''"
    by (simp add: example_helpers example_files_0002)
  have rd: "write_prompt_to_template example_utils_alias ''Recommend a fantasy book.'' USE
      = Inr (''# used'' @ [newline] @ ''Recommend a fantasy book.'')"
    by (simp add: example_alias_helpers example_render_def)
  have f: "run_format_command example_utils_alias
       (path_join (prompts_location example_settings) (''simple_prompt'' @ ''.py''))
       ((files example_world)(path_join (prompts_location example_settings)
           (''simple_prompt'' @ ''.py'') \<mapsto> ''# used'' @ [newline] @ ''Recommend a fantasy book.''))
      = Inr (example_files(''prompts/simple_prompt.py'' \<mapsto>
           ''# used'' @ [newline] @ ''Recommend a fantasy book.''))"
    by (simp add: example_alias_helpers example_helpers example_paths)
  have u': "update_version_text_file example_utils_alias ''versions/simple_prompt/version.txt''
       [(CURRENT_REVISION_KEY, ''beta'')]
       (example_files(''prompts/simple_prompt.py'' \<mapsto>
           ''# used'' @ [newline] @ ''Recommend a fantasy book.'')) = Inr fs2"
    by (simp only: example_alias_helpers u)
  have "use_command example_utils_alias ''simple_prompt'' ''beta'' None example_world =
     use_checkout example_utils_alias example_settings ''simple_prompt'' ''beta''
       ''versions/simple_prompt/0002_simple_prompt.py'' ''versions/simple_prompt/version.txt''
       example_world"
    by (simp add: use_command_no_drift [of _ _ example_settings _ None] example_alias_helpers
          example_helpers resolved_version_def example_paths)
  with use_checkout_done [OF c rd f u']
  have run: "use_command example_utils_alias ''simple_prompt'' ''beta'' None example_world =
     (Inr None, example_world\<lparr>files := fs2,
        stdout := stdout example_world @ [''Using '' @ ''versions/simple_prompt/0002_simple_prompt.py''],
        trace := trace example_world @
          [OpenRead ''versions/simple_prompt/0002_simple_prompt.py'',
           OpenWrite (path_join (prompts_location example_settings) (''simple_prompt'' @ ''.py'')),
           FileWrite (path_join (prompts_location example_settings) (''simple_prompt'' @ ''.py''))
             (''# used'' @ [newline] @ ''Recommend a fantasy book.''),
           RunFormat (path_join (prompts_location example_settings) (''simple_prompt'' @ ''.py'')),
           UpdateVersionFile ''versions/simple_prompt/version.txt''
             [(CURRENT_REVISION_KEY, ''beta'')]]\<rparr>)"
    by simp
  from run show "fst (use_command example_utils_alias ''simple_prompt'' ''beta'' None
      example_world) = Inr None"
    by simp
  from run show "stdout (snd (use_command example_utils_alias ''simple_prompt'' ''beta'' None
      example_world)) = [''Using versions/simple_prompt/0002_simple_prompt.py'']"
    by (simp add: example_helpers)
  from run field show "version_field ''='' CURRENT_REVISION_KEY
     (files (snd (use_command example_utils_alias ''simple_prompt'' ''beta'' None example_world))
        ''versions/simple_prompt/version.txt'') = Some ''beta''"
    by simp
qed

text \<open>
  C2. After a successful Use the pointer file has been updated once, after the formatter,
  with the single key \<^verbatim>\<open>current_revision\<close>, set to the key Use looked the snapshot up
  under (lines 97 and 98): the string the user gave, not a number read off the snapshot
  found. With the pointer file kept in the text format of the spec, no line break in the
  key, and a formatter that leaves the pointer file alone, the field
  \<^verbatim>\<open>current_revision\<close> then reads as that key (null when the key is empty), and
  \<^verbatim>\<open>latest_revision\<close> and every other key read as they did before the command.
\<close>

theorem use_command_pointer_update:
  assumes "get_user_mirascope_settings U (files w) = Inr s"
    and "check_status U s n (files w) = Inr st"
    and "\<not> truthy st"
    and "use_command U n a v w = (Inr r, w')"
    and "p = path_join (prompts_location s) (n @ ''.py'')"
    and "vp = path_join (path_join (versions_location s) n) (version_file_name s)"
  shows "(\<exists>rp rendered fs1.
            find_prompt_path U (path_join (versions_location s) n) (resolved_version a v)
              (files w) = Inr (Some rp)
          \<and> stdout w' = stdout w @ [''Using '' @ rp]
          \<and> run_format_command U p ((files w)(p \<mapsto> rendered)) = Inr fs1
          \<and> update_version_text_file U vp
               [(CURRENT_REVISION_KEY, resolved_version a v)] fs1 = Inr (files w'))
    \<and> [e \<leftarrow> trace w'. \<exists>q kvs. e = UpdateVersionFile q kvs]
         = [e \<leftarrow> trace w. \<exists>q kvs. e = UpdateVersionFile q kvs]
           @ [UpdateVersionFile vp [(CURRENT_REVISION_KEY, resolved_version a v)]]
    \<and> (update_version_text_file U = update_version_text_file_spec sep
          \<and> p \<noteq> vp
          \<and> (\<forall>fs fs'. run_format_command U p fs = Inr fs' \<longrightarrow> fs' vp = fs vp)
          \<and> newline \<notin> set sep
          \<and> newline \<notin> set (resolved_version a v)
        \<longrightarrow> version_field sep CURRENT_REVISION_KEY (files w' vp)
               = (if resolved_version a v = [] then None else Some (resolved_version a v))
          \<and> version_field sep LATEST_REVISION_KEY (files w' vp)
               = version_field sep LATEST_REVISION_KEY (files w vp)
          \<and> (\<forall>key. \<not> prefix (CURRENT_REVISION_KEY @ sep) (key @ sep)
                 \<and> \<not> prefix (key @ sep) (CURRENT_REVISION_KEY @ sep)
              \<longrightarrow> version_field sep key (files w' vp) = version_field sep key (files w vp)))"
proof -
  from use_command_returns [OF assms(1-4)] obtain rp content rendered fs1 where
    l: "find_prompt_path U (path_join (versions_location s) n) (resolved_version a v)
              (files w) = Inr (Some rp)"
    and o: "stdout w' = stdout w @ [''Using '' @ rp]"
    and f: "run_format_command U p ((files w)(p \<mapsto> rendered)) = Inr fs1"
    and u: "update_version_text_file U vp [(CURRENT_REVISION_KEY, resolved_version a v)] fs1
              = Inr (files w')"
    and t: "trace w' = trace w @ [OpenRead rp, OpenWrite p, FileWrite p rendered, RunFormat p,
              UpdateVersionFile vp [(CURRENT_REVISION_KEY, resolved_version a v)]]"
    unfolding assms(5,6) by blast
  from l o f u have 1: "\<exists>rp rendered fs1.
            find_prompt_path U (path_join (versions_location s) n) (resolved_version a v)
              (files w) = Inr (Some rp)
          \<and> stdout w' = stdout w @ [''Using '' @ rp]
          \<and> run_format_command U p ((files w)(p \<mapsto> rendered)) = Inr fs1
          \<and> update_version_text_file U vp
               [(CURRENT_REVISION_KEY, resolved_version a v)] fs1 = Inr (files w')"
    by blast
  have 2: "[e \<leftarrow> trace w'. \<exists>q kvs. e = UpdateVersionFile q kvs]
         = [e \<leftarrow> trace w. \<exists>q kvs. e = UpdateVersionFile q kvs]
           @ [UpdateVersionFile vp [(CURRENT_REVISION_KEY, resolved_version a v)]]"
    by (simp add: t)
  have 3: "update_version_text_file U = update_version_text_file_spec sep
          \<and> p \<noteq> vp
          \<and> (\<forall>fs fs'. run_format_command U p fs = Inr fs' \<longrightarrow> fs' vp = fs vp)
          \<and> newline \<notin> set sep
          \<and> newline \<notin> set (resolved_version a v)
        \<longrightarrow> version_field sep CURRENT_REVISION_KEY (files w' vp)
               = (if resolved_version a v = [] then None else Some (resolved_version a v))
          \<and> version_field sep LATEST_REVISION_KEY (files w' vp)
               = version_field sep LATEST_REVISION_KEY (files w vp)
          \<and> (\<forall>key. \<not> prefix (CURRENT_REVISION_KEY @ sep) (key @ sep)
                 \<and> \<not> prefix (key @ sep) (CURRENT_REVISION_KEY @ sep)
              \<longrightarrow> version_field sep key (files w' vp) = version_field sep key (files w vp))"
  proof (intro impI)
    assume h: "update_version_text_file U = update_version_text_file_spec sep
          \<and> p \<noteq> vp
          \<and> (\<forall>fs fs'. run_format_command U p fs = Inr fs' \<longrightarrow> fs' vp = fs vp)
          \<and> newline \<notin> set sep
          \<and> newline \<notin> set (resolved_version a v)"
    from u h have u': "update_version_text_file_spec sep vp
        [(CURRENT_REVISION_KEY, resolved_version a v)] fs1 = Inr (files w')"
      by simp
    have clean: "newline \<notin> set (CURRENT_REVISION_KEY @ sep @ resolved_version a v)"
      using h current_key_no_newline by simp
    from f h have "fs1 vp = ((files w)(p \<mapsto> rendered)) vp" by blast
    moreover from h have "p \<noteq> vp" by simp
    ultimately have before: "fs1 vp = files w vp" by simp
    have a: "version_field sep CURRENT_REVISION_KEY (files w' vp)
             = (if resolved_version a v = [] then None else Some (resolved_version a v))"
      by (rule version_field_updated [OF u' clean])
    have c: "\<forall>key. \<not> prefix (CURRENT_REVISION_KEY @ sep) (key @ sep)
               \<and> \<not> prefix (key @ sep) (CURRENT_REVISION_KEY @ sep)
            \<longrightarrow> version_field sep key (files w' vp) = version_field sep key (files w vp)"
      using version_field_kept [OF u' clean] before by simp
    from c keys_apart have b: "version_field sep LATEST_REVISION_KEY (files w' vp)
             = version_field sep LATEST_REVISION_KEY (files w vp)"
      by blast
    from a b c show "version_field sep CURRENT_REVISION_KEY (files w' vp)
               = (if resolved_version a v = [] then None else Some (resolved_version a v))
          \<and> version_field sep LATEST_REVISION_KEY (files w' vp)
               = version_field sep LATEST_REVISION_KEY (files w vp)
          \<and> (\<forall>key. \<not> prefix (CURRENT_REVISION_KEY @ sep) (key @ sep)
                 \<and> \<not> prefix (key @ sep) (CURRENT_REVISION_KEY @ sep)
              \<longrightarrow> version_field sep key (files w' vp) = version_field sep key (files w vp))"
      by blast
  qed
  from 1 2 3 show ?thesis by blast
qed

theorem use_command_pointer_update_witness:
  "get_user_mirascope_settings (example_utils None) (files example_world) = Inr example_settings
   \<and> check_status (example_utils None) example_settings ''simple_prompt'' (files example_world)
       = Inr None
   \<and> \<not> truthy None
   \<and> use_command (example_utils None) ''simple_prompt'' ''0001'' None example_world
       = (Inr None, example_after_use)
   \<and> ''prompts/simple_prompt.py''
       = path_join (prompts_location example_settings) (''simple_prompt'' @ ''.py'')
   \<and> ''versions/simple_prompt/version.txt''
       = path_join (path_join (versions_location example_settings) ''simple_prompt'')
           (version_file_name example_settings)
   \<and> update_version_text_file (example_utils None) = update_version_text_file_spec ''=''
   \<and> ''prompts/simple_prompt.py'' \<noteq> ''versions/simple_prompt/version.txt''
   \<and> (\<forall>q fs. run_format_command (example_utils None) q fs = Inr fs)
   \<and> newline \<notin> set ''=''
   \<and> newline \<notin> set (resolved_version ''0001'' None)
   \<and> [e \<leftarrow> trace example_after_use. \<exists>q kvs. e = UpdateVersionFile q kvs]
       = [UpdateVersionFile ''versions/simple_prompt/version.txt''
            [(CURRENT_REVISION_KEY, ''0001'')]]
   \<and> version_field ''='' CURRENT_REVISION_KEY
        (files example_world ''versions/simple_prompt/version.txt'') = Some ''0002''
   \<and> version_field ''='' LATEST_REVISION_KEY
        (files example_world ''versions/simple_prompt/version.txt'') = Some ''0002''
   \<and> version_field ''='' CURRENT_REVISION_KEY
        (files example_after_use ''versions/simple_prompt/version.txt'') = Some ''0001''
   \<and> version_field ''='' LATEST_REVISION_KEY
        (files example_after_use ''versions/simple_prompt/version.txt'') = Some ''0002''"
proof -
  have h1: "get_user_mirascope_settings (example_utils None) (files example_world)
      = Inr example_settings"
    by (simp add: example_helpers)
  have h2: "check_status (example_utils None) example_settings ''simple_prompt''
      (files example_world) = Inr None"
    by (simp add: example_helpers)
  have h3: "\<not> truthy None" by simp
  have h4: "use_command (example_utils None) ''simple_prompt'' ''0001'' None example_world
       = (Inr None, example_after_use)"
    by (rule example_use_key) (simp add: resolved_version_def)
  have h5: "update_version_text_file (example_utils None) = update_version_text_file_spec ''=''"
    by (simp add: example_helpers)
  have h6: "''prompts/simple_prompt.py''
       = path_join (prompts_location example_settings) (''simple_prompt'' @ ''.py'')"
    by (simp add: example_helpers example_paths)
  have h7: "''versions/simple_prompt/version.txt''
       = path_join (path_join (versions_location example_settings) ''simple_prompt'')
           (version_file_name example_settings)"
    by (simp add: example_helpers example_paths)
  have h8: "''prompts/simple_prompt.py'' \<noteq> ''versions/simple_prompt/version.txt''"
    by simp
  have h9: "\<forall>fs fs'. run_format_command (example_utils None) ''prompts/simple_prompt.py'' fs
          = Inr fs' \<longrightarrow> fs' ''versions/simple_prompt/version.txt''
               = fs ''versions/simple_prompt/version.txt''"
    by (simp add: example_helpers)
  have h9': "\<forall>q fs. run_format_command (example_utils None) q fs = Inr fs"
    by (simp add: example_helpers)
  have h10: "newline \<notin> set ''=''" by (simp add: newline_def)
  have h11: "newline \<notin> set (resolved_version ''0001'' None)"
    by (simp add: resolved_version_def newline_def)
  have r: "resolved_version ''0001'' None = ''0001''" by (simp add: resolved_version_def)
  have b1: "version_field ''='' CURRENT_REVISION_KEY
        (files example_world ''versions/simple_prompt/version.txt'') = Some ''0002''"
    by (simp only: example_helpers example_files_lookup example_pointer_fields)
  have b2: "version_field ''='' LATEST_REVISION_KEY
        (files example_world ''versions/simple_prompt/version.txt'') = Some ''0002''"
    by (simp only: example_helpers example_files_lookup example_pointer_fields)
  note inst = use_command_pointer_update [OF h1 h2 h3 h4 h6 h7, of "''=''"]
  from inst have t: "[e \<leftarrow> trace example_after_use. \<exists>q kvs. e = UpdateVersionFile q kvs]
       = [UpdateVersionFile ''versions/simple_prompt/version.txt''
            [(CURRENT_REVISION_KEY, ''0001'')]]"
    by (simp add: r example_helpers)
  from inst h5 h8 h9 h10 h11
  have "version_field ''='' CURRENT_REVISION_KEY
          (files example_after_use ''versions/simple_prompt/version.txt'')
        = (if resolved_version ''0001'' None = [] then None
           else Some (resolved_version ''0001'' None))
      \<and> version_field ''='' LATEST_REVISION_KEY
          (files example_after_use ''versions/simple_prompt/version.txt'')
        = version_field ''='' LATEST_REVISION_KEY
          (files example_world ''versions/simple_prompt/version.txt'')"
    by blast
  then have a1: "version_field ''='' CURRENT_REVISION_KEY
        (files example_after_use ''versions/simple_prompt/version.txt'') = Some ''0001''"
    and a2: "version_field ''='' LATEST_REVISION_KEY
        (files example_after_use ''versions/simple_prompt/version.txt'') = Some ''0002''"
    by (simp_all add: r b2)
  from h1 h2 h3 h4 h5 h6 h7 h8 h9' h10 h11 t b1 b2 a1 a2 show ?thesis by blast
qed

theorem use_command_pointer_holds_alias:
  "fst (use_command example_utils_alias ''simple_prompt'' ''beta'' None example_world) = Inr None
   \<and> stdout (snd (use_command example_utils_alias ''simple_prompt'' ''beta'' None example_world))
       = [''Using versions/simple_prompt/0002_simple_prompt.py'']
   \<and> version_field ''='' CURRENT_REVISION_KEY
        (files (snd (use_command example_utils_alias ''simple_prompt'' ''beta'' None
           example_world)) ''versions/simple_prompt/version.txt'') = Some ''beta''
   \<and> ''beta'' \<noteq> ''0002''"
  using example_alias_run by simp

section \<open>Properties of the add command\<close>

lemma add_command_no_drift:
  assumes "get_user_mirascope_settings A (files w) = Inr s"
    and "check_status A s n (files w) = Inr st"
    and "\<not> truthy st"
  shows "add_command A n w = (Inr None, w\<lparr>stdout := stdout w @ [''No changes detected.'']\<rparr>)"
  using assms by (simp add: add_command_def py_print_def)

lemma add_command_status_raise:
  assumes "get_user_mirascope_settings A (files w) = Inr s"
    and "check_status A s n (files w) = Inl e"
  shows "add_command A n w = (Inl e, w)"
  using assms by (simp add: add_command_def)

lemma check_status_spec_no_file:
  assumes "fs (path_join (prompts_location s) (n @ ''.py'')) = None"
  shows "check_status_spec read_versions strip s n fs
    = Inl (no_such_file (path_join (prompts_location s) (n @ ''.py'')))"
  using assms by (simp add: check_status_spec_def)

lemma example_add_helpers:
  "get_user_mirascope_settings (example_add_utils checker) fs = Inr example_settings"
  "check_status (example_add_utils checker) = checker"
  "get_prompt_versions (example_add_utils checker) = get_prompt_versions_spec ''=''"
  "strip_metadata (example_add_utils checker) = example_strip"
  by (simp_all add: example_add_utils_def)

lemma example_unknown_prompt:
  "path_join ''prompts'' ''unknown_prompt.py'' = ''prompts/unknown_prompt.py''"
  "example_files ''prompts/unknown_prompt.py'' = None"
  by (simp_all add: path_join_def example_files_def)

text \<open>
  C7. When the status checker reports no drift, the add command prints
  \<^verbatim>\<open>No changes detected.\<close> and returns normally, without an error; the files are as
  they were and no file operation is logged: no snapshot is written and the pointer
  file is not touched.
\<close>

theorem add_command_no_changes:
  assumes "get_user_mirascope_settings A (files w) = Inr s"
    and "check_status A s n (files w) = Inr st"
    and "\<not> truthy st"
  shows "fst (add_command A n w) = Inr None
    \<and> stdout (snd (add_command A n w)) = stdout w @ [''No changes detected.'']
    \<and> files (snd (add_command A n w)) = files w
    \<and> trace (snd (add_command A n w)) = trace w"
  using add_command_no_drift [OF assms] by simp

theorem add_command_no_changes_witness:
  "get_user_mirascope_settings (example_add_utils (\<lambda>s n fs. Inr None)) (files example_world)
     = Inr example_settings
   \<and> check_status (example_add_utils (\<lambda>s n fs. Inr None)) example_settings
        ''unknown_prompt'' (files example_world) = Inr None
   \<and> \<not> truthy None
   \<and> fst (add_command (example_add_utils (\<lambda>s n fs. Inr None)) ''unknown_prompt''
         example_world) = Inr None
   \<and> stdout (snd (add_command (example_add_utils (\<lambda>s n fs. Inr None)) ''unknown_prompt''
         example_world)) = [''No changes detected.'']
   \<and> files (snd (add_command (example_add_utils (\<lambda>s n fs. Inr None)) ''unknown_prompt''
         example_world)) = example_files
   \<and> trace (snd (add_command (example_add_utils (\<lambda>s n fs. Inr None)) ''unknown_prompt''
         example_world)) = []"
proof -
  have h1: "get_user_mirascope_settings (example_add_utils (\<lambda>s n fs. Inr None))
      (files example_world) = Inr example_settings"
    by (simp add: example_add_helpers)
  have h2: "check_status (example_add_utils (\<lambda>s n fs. Inr None)) example_settings
        ''unknown_prompt'' (files example_world) = Inr None"
    by (simp add: example_add_helpers)
  have h3: "\<not> truthy None" by simp
  from add_command_no_changes [OF h1 h2 h3]
  have "fst (add_command (example_add_utils (\<lambda>s n fs. Inr None)) ''unknown_prompt''
         example_world) = Inr None
   \<and> stdout (snd (add_command (example_add_utils (\<lambda>s n fs. Inr None)) ''unknown_prompt''
         example_world)) = [''No changes detected.'']
   \<and> files (snd (add_command (example_add_utils (\<lambda>s n fs. Inr None)) ''unknown_prompt''
         example_world)) = example_files
   \<and> trace (snd (add_command (example_add_utils (\<lambda>s n fs. Inr None)) ''unknown_prompt''
         example_world)) = []"
    by (simp only: example_helpers append_Nil)
  with h1 h2 h3 show ?thesis by blast
qed

text \<open>
  C8. With the status checker of section 4.1, the add command on a prompt whose working
  file does not exist raises \<^verbatim>\<open>FileNotFoundError\<close>, and the world is as it was: no
  file is written, nothing is printed, nothing is logged.
\<close>

theorem add_command_unknown_file:
  assumes "get_user_mirascope_settings A (files w) = Inr s"
    and "check_status A = check_status_spec (get_prompt_versions A) (strip_metadata A)"
    and "files w (path_join (prompts_location s) (n @ ''.py'')) = None"
  shows "add_command A n w
           = (Inl (no_such_file (path_join (prompts_location s) (n @ ''.py''))), w)
    \<and> (\<exists>m. no_such_file (path_join (prompts_location s) (n @ ''.py''))
              = FileNotFoundError m)"
proof -
  have "check_status A s n (files w)
      = Inl (no_such_file (path_join (prompts_location s) (n @ ''.py'')))"
    by (simp add: assms(2) check_status_spec_no_file [where fs = "files w" and s = s and n = n, OF assms(3)])
  from add_command_status_raise [OF assms(1) this] show ?thesis
    by (simp add: no_such_file_def)
qed

theorem add_command_unknown_file_witness:
  "get_user_mirascope_settings example_add_utils_checked (files example_world)
     = Inr example_settings
   \<and> check_status example_add_utils_checked
       = check_status_spec (get_prompt_versions example_add_utils_checked)
           (strip_metadata example_add_utils_checked)
   \<and> files example_world (path_join (prompts_location example_settings)
        (''unknown_prompt'' @ ''.py'')) = None
   \<and> add_command example_add_utils_checked ''unknown_prompt'' example_world
       = (Inl (FileNotFoundError (''[Errno 2] No such file or directory: ''
                 @ [CHR 0x27] @ ''prompts/unknown_prompt.py'' @ [CHR 0x27])), example_world)"
proof -
  have h1: "get_user_mirascope_settings example_add_utils_checked (files example_world)
     = Inr example_settings"
    by (simp add: example_add_utils_checked_def example_add_helpers)
  have h2: "check_status example_add_utils_checked
       = check_status_spec (get_prompt_versions example_add_utils_checked)
           (strip_metadata example_add_utils_checked)"
    by (simp add: example_add_utils_checked_def example_add_helpers)
  have h3: "files example_world (path_join (prompts_location example_settings)
        (''unknown_prompt'' @ ''.py'')) = None"
    by (simp add: example_helpers example_unknown_prompt)
  have p: "path_join (prompts_location example_settings) (''unknown_prompt'' @ ''.py'')
      = ''prompts/unknown_prompt.py''"
    by (simp add: example_helpers example_unknown_prompt)
  from add_command_unknown_file [OF h1 h2 h3]
  have "add_command example_add_utils_checked ''unknown_prompt'' example_world
       = (Inl (FileNotFoundError (''[Errno 2] No such file or directory: ''
                 @ [CHR 0x27] @ ''prompts/unknown_prompt.py'' @ [CHR 0x27])), example_world)"
    by (simp only: p no_such_file_def)
  with h1 h2 h3 show ?thesis by blast
qed

end
